theory Spec2Isabelle
  imports Complex_Main
begin

section \<open>Python values shared by the three modules\<close>

text \<open>
  Exceptions are values. Each constructor carries the text that \<^verbatim>\<open>str(e)\<close> yields,
  because \<^verbatim>\<open>handle_future_completion\<close> forwards that text to the client.
\<close>

datatype exn =
    AttributeError string
  | KeyError string
  | TypeError string
  | ValueError string
  | IndexError string
  | Exception string

fun str_of_exn :: "exn \<Rightarrow> string" where
  "str_of_exn (AttributeError m) = m"
| "str_of_exn (KeyError m) = m"
| "str_of_exn (TypeError m) = m"
| "str_of_exn (ValueError m) = m"
| "str_of_exn (IndexError m) = m"
| "str_of_exn (Exception m) = m"

text \<open>
  A similarity is a numpy float. Only its order matters to the matching policy, so a
  float is a real number or NaN; every comparison with NaN is false, as in Python.
\<close>

datatype npfloat = NaN | Fin real

fun py_gt :: "npfloat \<Rightarrow> npfloat \<Rightarrow> bool" where
  "py_gt (Fin a) (Fin b) = (b < a)"
| "py_gt _ _ = False"

fun py_ge :: "npfloat \<Rightarrow> npfloat \<Rightarrow> bool" where
  "py_ge (Fin a) (Fin b) = (b \<le> a)"
| "py_ge _ _ = False"

section \<open>Matching engine: \<^verbatim>\<open>face_utils.py\<close>\<close>

text \<open>
  \<^verbatim>\<open>FaceRecognition.compare_faces\<close> (lines 48-65). The numpy arithmetic of lines 55-59
  (normalise both vectors, take the dot product) is the parameter \<open>cosine\<close>; it answers
  \<open>Inl\<close> when numpy raises, which the \<^verbatim>\<open>except\<close> clause turns into 0.0.
\<close>

definition compare_faces ::
  "('e \<Rightarrow> 'e \<Rightarrow> exn + npfloat) \<Rightarrow> 'e option \<Rightarrow> 'e option \<Rightarrow> npfloat" where
  "compare_faces cosine embedding1 embedding2 =
     (if embedding1 = None \<or> embedding2 = None then Fin 0
      else (case cosine (the embedding1) (the embedding2) of
              Inr similarity \<Rightarrow> similarity
            | Inl e \<Rightarrow> Fin 0))"

text \<open>
  A candidate is any object with an \<^verbatim>\<open>embedding\<close> attribute holding the stored string;
  its other attributes are the extension of the record.
\<close>

record user =
  embedding :: string

text \<open>One entry of the list \<^verbatim>\<open>find_matches_for_embeddings\<close> returns (lines 125-129).\<close>

record ('u, 'b) match_result =
  user :: 'u
  similarity :: npfloat
  bbox :: 'b

text \<open>\<^verbatim>\<open>self.threshold\<close>, set by the constructor (line 18).\<close>

definition default_threshold :: real where
  "default_threshold = 1 / 2"

text \<open>
  The inner loop (lines 116-122) over the candidates, carrying
  \<^verbatim>\<open>(best_match, best_similarity)\<close>. \<open>str_to_embedding\<close> is
  \<^verbatim>\<open>FaceRecognition.str_to_embedding\<close> (lines 75-81): the JSON decoding is a parameter
  and its exception is re-raised, so it leaves the whole call.
\<close>

fun scan_users ::
  "('e \<Rightarrow> 'e \<Rightarrow> exn + npfloat) \<Rightarrow> (string \<Rightarrow> exn + 'e) \<Rightarrow> 'e option \<Rightarrow>
   'a user_scheme list \<Rightarrow> 'a user_scheme option \<times> npfloat \<Rightarrow>
   exn + ('a user_scheme option \<times> npfloat)" where
  "scan_users cosine str_to_embedding query_embedding [] best = Inr best"
| "scan_users cosine str_to_embedding query_embedding (u # users) (best_match, best_similarity) =
     (case str_to_embedding (embedding u) of
        Inl e \<Rightarrow> Inl e
      | Inr stored_embedding \<Rightarrow>
          (let similarity = compare_faces cosine query_embedding (Some stored_embedding)
           in if py_gt similarity best_similarity
              then scan_users cosine str_to_embedding query_embedding users (Some u, similarity)
              else scan_users cosine str_to_embedding query_embedding users
                     (best_match, best_similarity)))"

text \<open>
  The outer loop (lines 112-129) over the detected faces, carrying \<^verbatim>\<open>matches\<close>.
  A candidate object is truthy, so \<^verbatim>\<open>and best_match\<close> asks whether one was recorded.
\<close>

fun find_matches_loop ::
  "('e \<Rightarrow> 'e \<Rightarrow> exn + npfloat) \<Rightarrow> (string \<Rightarrow> exn + 'e) \<Rightarrow> ('e option \<times> 'b) list \<Rightarrow>
   'a user_scheme list \<Rightarrow> real \<Rightarrow> ('a user_scheme, 'b) match_result list \<Rightarrow>
   exn + ('a user_scheme, 'b) match_result list" where
  "find_matches_loop cosine str_to_embedding [] users threshold matches = Inr matches"
| "find_matches_loop cosine str_to_embedding ((query_embedding, bx) # rest) users threshold matches =
     (case scan_users cosine str_to_embedding query_embedding users (None, Fin 0) of
        Inl e \<Rightarrow> Inl e
      | Inr (best_match, best_similarity) \<Rightarrow>
          if py_ge best_similarity (Fin threshold) \<and> best_match \<noteq> None
          then find_matches_loop cosine str_to_embedding rest users threshold
                 (matches @ [\<lparr>user = the best_match, similarity = best_similarity, bbox = bx\<rparr>])
          else find_matches_loop cosine str_to_embedding rest users threshold matches)"

text \<open>\<^verbatim>\<open>FaceRecognition.find_matches_for_embeddings\<close> (lines 105-131).\<close>

definition find_matches_for_embeddings ::
  "('e \<Rightarrow> 'e \<Rightarrow> exn + npfloat) \<Rightarrow> (string \<Rightarrow> exn + 'e) \<Rightarrow> ('e option \<times> 'b) list \<Rightarrow>
   'a user_scheme list \<Rightarrow> real option \<Rightarrow> exn + ('a user_scheme, 'b) match_result list" where
  "find_matches_for_embeddings cosine str_to_embedding query_embeddings users threshold =
     find_matches_loop cosine str_to_embedding query_embeddings users
       (case threshold of None \<Rightarrow> default_threshold | Some t \<Rightarrow> t) []"

text \<open>
  The matching policy as the specification words it (section 4.2): the maximum of the
  candidates' similarities, the first candidate that reaches it, and a result when the
  maximum is at least the threshold. \<open>fin_values\<close> keeps the similarities that are numbers.
\<close>

fun fin_values :: "npfloat list \<Rightarrow> real list" where
  "fin_values [] = []"
| "fin_values (NaN # ss) = fin_values ss"
| "fin_values (Fin x # ss) = x # fin_values ss"

definition max_similarity :: "('u \<times> npfloat) list \<Rightarrow> real option" where
  "max_similarity cands =
     (let vs = fin_values (map snd cands) in if vs = [] then None else Some (Max (set vs)))"

definition first_with_similarity :: "real \<Rightarrow> ('u \<times> npfloat) list \<Rightarrow> 'u option" where
  "first_with_similarity m cands = map_option fst (find (\<lambda>(u, s). s = Fin m) cands)"

definition spec_match_face ::
  "('u \<times> npfloat) list \<Rightarrow> real \<Rightarrow> 'b \<Rightarrow> ('u, 'b) match_result option" where
  "spec_match_face cands threshold bx =
     (case max_similarity cands of
        None \<Rightarrow> None
      | Some m \<Rightarrow>
          if threshold \<le> m
          then map_option (\<lambda>u. \<lparr>user = u, similarity = Fin m, bbox = bx\<rparr>)
                 (first_with_similarity m cands)
          else None)"

text \<open>
  The same policy with the guard of line 124 written out: a candidate is recorded only by a
  similarity above the initial 0.0, so the maximum must also be positive.
\<close>

definition positive_match_face ::
  "('u \<times> npfloat) list \<Rightarrow> real \<Rightarrow> 'b \<Rightarrow> ('u, 'b) match_result option" where
  "positive_match_face cands threshold bx =
     (case max_similarity cands of
        None \<Rightarrow> None
      | Some m \<Rightarrow>
          if threshold \<le> m \<and> 0 < m
          then map_option (\<lambda>u. \<lparr>user = u, similarity = Fin m, bbox = bx\<rparr>)
                 (first_with_similarity m cands)
          else None)"

text \<open>
  The inner loop of \<open>scan_users\<close> once every stored string has been decoded: the
  tracking of lines 120-122 over the candidates paired with their similarities.
\<close>

fun track_best :: "('u \<times> npfloat) list \<Rightarrow> 'u option \<times> npfloat \<Rightarrow> 'u option \<times> npfloat" where
  "track_best [] best = best"
| "track_best ((u, s) # cands) (best_match, best_similarity) =
     (if py_gt s best_similarity then track_best cands (Some u, s)
      else track_best cands (best_match, best_similarity))"


section \<open>Shared state of the process: \<^verbatim>\<open>app/dependencies.py\<close>\<close>

subsection \<open>Dictionaries\<close>

text \<open>
  A Python dictionary keeps its keys in insertion order, and the code relies on that order
  (\<^verbatim>\<open>enumerate(active_connections.keys())\<close>, the first pending future of a client), so a
  dictionary is an association list. Assigning to a key already present keeps its place.
\<close>

fun dict_set :: "'k \<Rightarrow> 'v \<Rightarrow> ('k \<times> 'v) list \<Rightarrow> ('k \<times> 'v) list" where
  "dict_set k v [] = [(k, v)]"
| "dict_set k v ((k', v') # kvs) =
     (if k' = k then (k, v) # kvs else (k', v') # dict_set k v kvs)"

definition dict_del :: "'k \<Rightarrow> ('k \<times> 'v) list \<Rightarrow> ('k \<times> 'v) list" where
  "dict_del k kvs = filter (\<lambda>(k', v). k' \<noteq> k) kvs"

definition dict_has :: "'k \<Rightarrow> ('k \<times> 'v) list \<Rightarrow> bool" where
  "dict_has k kvs = (k \<in> set (map fst kvs))"

subsection \<open>Bounded queues (lines 26-29)\<close>

text \<open>
  \<^verbatim>\<open>manager.Queue(maxsize=100)\<close> is a proxy of the standard library's \<^verbatim>\<open>queue.Queue\<close>:
  first in, first out; with a positive \<^verbatim>\<open>maxsize\<close>, \<^verbatim>\<open>put\<close> waits while the queue holds
  \<^verbatim>\<open>maxsize\<close> items, and \<^verbatim>\<open>get\<close> waits while it is empty. A call that waits has no
  result here: \<open>None\<close>.
\<close>

record 'a py_queue =
  maxsize :: int
  queue_items :: "'a list"

definition Queue :: "int \<Rightarrow> 'a py_queue" where
  "Queue n = \<lparr>maxsize = n, queue_items = []\<rparr>"

definition queue_full :: "'a py_queue \<Rightarrow> bool" where
  "queue_full q = (0 < maxsize q \<and> maxsize q \<le> int (length (queue_items q)))"

definition queue_empty :: "'a py_queue \<Rightarrow> bool" where
  "queue_empty q = (queue_items q = [])"

definition queue_put :: "'a \<Rightarrow> 'a py_queue \<Rightarrow> 'a py_queue option" where
  "queue_put x q =
     (if queue_full q then None else Some (q\<lparr>queue_items := queue_items q @ [x]\<rparr>))"

definition queue_get :: "'a py_queue \<Rightarrow> ('a \<times> 'a py_queue) option" where
  "queue_get q =
     (case queue_items q of
        [] \<Rightarrow> None
      | x # xs \<Rightarrow> Some (x, q\<lparr>queue_items := xs\<rparr>))"

text \<open>The two queues as the module creates them (lines 28 and 29).\<close>

definition processing_results_queue_init :: "'a py_queue" where
  "processing_results_queue_init = Queue 100"

definition websocket_responses_queue_init :: "'a py_queue" where
  "websocket_responses_queue_init = Queue 100"

text \<open>
  A producer or consumer acting on a queue. An operation that would wait leaves the queue
  as it is.
\<close>

datatype 'a queue_op = Put 'a | Get

fun queue_apply :: "'a queue_op \<Rightarrow> 'a py_queue \<Rightarrow> 'a py_queue" where
  "queue_apply (Put x) q = (case queue_put x q of None \<Rightarrow> q | Some q' \<Rightarrow> q')"
| "queue_apply Get q = (case queue_get q of None \<Rightarrow> q | Some (x, q') \<Rightarrow> q')"

subsection \<open>Employee cache (lines 34-38 and 74-85)\<close>

text \<open>
  A row of the employee class, as \<^verbatim>\<open>Employee().query()\<close> returns it: a dictionary read
  here only at \<^verbatim>\<open>"objectId"\<close>; the other keys are the extension of the record.
\<close>

record employee =
  objectId :: string

definition EMPLOYEE_CACHE_TTL :: real where
  "EMPLOYEE_CACHE_TTL = 300"

text \<open>
  \<^verbatim>\<open>employee_cache\<close> and \<^verbatim>\<open>employee_cache_last_updated\<close>. \<open>query_calls\<close> counts the
  calls of \<^verbatim>\<open>Employee().query()\<close> made so far: the store is outside the program, and the
  count is what tells a fetch from a cache hit.
\<close>

record 'a directory =
  employee_cache :: "(string \<times> 'a employee_scheme) list"
  employee_cache_last_updated :: real
  query_calls :: nat

definition directory_init :: "'a directory" where
  "directory_init = \<lparr>employee_cache = [], employee_cache_last_updated = 0, query_calls = 0\<rparr>"

text \<open>
  The dictionary \<^verbatim>\<open>{employee["objectId"]: employee for employee in employees}\<close> of line 82,
  stored into the cache that line 81 has just emptied.
\<close>

definition snapshot_of :: "'a employee_scheme list \<Rightarrow> (string \<times> 'a employee_scheme) list" where
  "snapshot_of employees = fold (\<lambda>e d. dict_set (objectId e) e d) employees []"

text \<open>
  \<^verbatim>\<open>get_cached_employees\<close> (lines 74-85). \<open>query n\<close> is what the \<open>n\<close>-th call of
  \<^verbatim>\<open>Employee().query()\<close> answers or raises, \<open>current_time\<close> what \<^verbatim>\<open>time.time()\<close> returns.
  An exception of the query leaves the \<^verbatim>\<open>with\<close> block before line 81.
\<close>

definition get_cached_employees ::
  "(nat \<Rightarrow> exn + 'a employee_scheme list) \<Rightarrow> real \<Rightarrow> 'a directory \<Rightarrow>
   (exn + 'a employee_scheme list) \<times> 'a directory" where
  "get_cached_employees query current_time d =
     (if current_time - employee_cache_last_updated d > EMPLOYEE_CACHE_TTL
         \<or> employee_cache d = []
      then (case query (query_calls d) of
              Inl e \<Rightarrow> (Inl e, d\<lparr>query_calls := Suc (query_calls d)\<rparr>)
            | Inr employees \<Rightarrow>
                (let d' = d\<lparr>employee_cache := snapshot_of employees,
                            employee_cache_last_updated := current_time,
                            query_calls := Suc (query_calls d)\<rparr>
                 in (Inr (map snd (employee_cache d')), d')))
      else (Inr (map snd (employee_cache d)), d))"

section \<open>Payloads: dynamically typed Python values\<close>

text \<open>
  What a worker returns and what travels through the queues and to the clients is JSON-like
  data whose shape the code never checks. A tuple is written as a list. Each operation
  below is one Python expression of \<^verbatim>\<open>websocket.py\<close>, with the exception it raises on
  a value of the wrong type.
\<close>

datatype pyval =
    PNone
  | PBool bool
  | PInt int
  | PFloat real
  | PStr string
  | PList "pyval list"
  | PDict "(string \<times> pyval) list"

fun type_name :: "pyval \<Rightarrow> string" where
  "type_name PNone = ''NoneType''"
| "type_name (PBool b) = ''bool''"
| "type_name (PInt i) = ''int''"
| "type_name (PFloat x) = ''float''"
| "type_name (PStr s) = ''str''"
| "type_name (PList xs) = ''list''"
| "type_name (PDict kvs) = ''dict''"

text \<open>A name between apostrophes, as Python's messages print it.\<close>

definition quoted :: "string \<Rightarrow> string" where
  "quoted s = CHR 0x27 # s @ [CHR 0x27]"

text \<open>Truth value of \<^verbatim>\<open>if x:\<close> and \<^verbatim>\<open>if not x:\<close>.\<close>

fun py_truthy :: "pyval \<Rightarrow> bool" where
  "py_truthy PNone = False"
| "py_truthy (PBool b) = b"
| "py_truthy (PInt i) = (i \<noteq> 0)"
| "py_truthy (PFloat x) = (x \<noteq> 0)"
| "py_truthy (PStr s) = (s \<noteq> [])"
| "py_truthy (PList xs) = (xs \<noteq> [])"
| "py_truthy (PDict kvs) = (kvs \<noteq> [])"

text \<open>\<^verbatim>\<open>x.get(key, default)\<close>: only a dictionary has the method.\<close>

fun py_get :: "pyval \<Rightarrow> string \<Rightarrow> pyval \<Rightarrow> exn + pyval" where
  "py_get (PDict kvs) key dflt =
     Inr (case map_of kvs key of None \<Rightarrow> dflt | Some v \<Rightarrow> v)"
| "py_get x key dflt =
     Inl (AttributeError (quoted (type_name x) @ '' object has no attribute '' @ quoted ''get''))"

text \<open>
  \<^verbatim>\<open>key in x\<close> for a string \<open>key\<close>: a key of a dictionary, an element of a list, a
  substring of a string.
\<close>

fun is_substring :: "string \<Rightarrow> string \<Rightarrow> bool" where
  "is_substring k [] = (k = [])"
| "is_substring k (c # s) = (take (length k) (c # s) = k \<or> is_substring k s)"

fun py_in :: "string \<Rightarrow> pyval \<Rightarrow> exn + bool" where
  "py_in key (PDict kvs) = Inr (dict_has key kvs)"
| "py_in key (PList xs) = Inr (PStr key \<in> set xs)"
| "py_in key (PStr s) = Inr (is_substring key s)"
| "py_in key x =
     Inl (TypeError (''argument of type '' @ quoted (type_name x) @ '' is not iterable''))"

text \<open>\<^verbatim>\<open>x[key]\<close> for a string \<open>key\<close>.\<close>

fun py_getitem :: "pyval \<Rightarrow> string \<Rightarrow> exn + pyval" where
  "py_getitem (PDict kvs) key =
     (case map_of kvs key of None \<Rightarrow> Inl (KeyError (quoted key)) | Some v \<Rightarrow> Inr v)"
| "py_getitem (PList xs) key =
     Inl (TypeError ''list indices must be integers or slices, not str'')"
| "py_getitem (PStr s) key = Inl (TypeError ''string indices must be integers'')"
| "py_getitem x key =
     Inl (TypeError (quoted (type_name x) @ '' object is not subscriptable''))"

text \<open>\<^verbatim>\<open>x[key] = v\<close> for a string \<open>key\<close>.\<close>

fun py_setitem :: "pyval \<Rightarrow> string \<Rightarrow> pyval \<Rightarrow> exn + pyval" where
  "py_setitem (PDict kvs) key v = Inr (PDict (dict_set key v kvs))"
| "py_setitem (PList xs) key v =
     Inl (TypeError ''list indices must be integers or slices, not str'')"
| "py_setitem x key v =
     Inl (TypeError (quoted (type_name x) @ '' object does not support item assignment''))"

text \<open>
  The elements a \<^verbatim>\<open>for\<close> loop or a tuple assignment draws from \<open>x\<close>: the elements of a
  list, the keys of a dictionary, the characters of a string.
\<close>

fun py_iter :: "pyval \<Rightarrow> exn + pyval list" where
  "py_iter (PList xs) = Inr xs"
| "py_iter (PDict kvs) = Inr (map (\<lambda>(k, v). PStr k) kvs)"
| "py_iter (PStr s) = Inr (map (\<lambda>c. PStr [c]) s)"
| "py_iter x = Inl (TypeError (quoted (type_name x) @ '' object is not iterable''))"

text \<open>\<^verbatim>\<open>len(x)\<close>.\<close>

fun py_len :: "pyval \<Rightarrow> exn + nat" where
  "py_len (PList xs) = Inr (length xs)"
| "py_len (PDict kvs) = Inr (length kvs)"
| "py_len (PStr s) = Inr (length s)"
| "py_len x = Inl (TypeError (''object of type '' @ quoted (type_name x) @ '' has no len()''))"

text \<open>\<^verbatim>\<open>x[0]\<close>. A dictionary here has string keys only, so it has no key 0.\<close>

fun py_first :: "pyval \<Rightarrow> exn + pyval" where
  "py_first (PList []) = Inl (IndexError ''list index out of range'')"
| "py_first (PList (x # xs)) = Inr x"
| "py_first (PStr []) = Inl (IndexError ''string index out of range'')"
| "py_first (PStr (c # s)) = Inr (PStr [c])"
| "py_first (PDict kvs) = Inl (KeyError ''0'')"
| "py_first x = Inl (TypeError (quoted (type_name x) @ '' object is not subscriptable''))"

text \<open>\<^verbatim>\<open>x > 0\<close>.\<close>

fun py_positive :: "pyval \<Rightarrow> exn + bool" where
  "py_positive (PInt i) = Inr (0 < i)"
| "py_positive (PBool b) = Inr b"
| "py_positive (PFloat x) = Inr (0 < x)"
| "py_positive x =
     Inl (TypeError (quoted ''>'' @ '' not supported between instances of ''
                     @ quoted (type_name x) @ '' and '' @ quoted ''int''))"

text \<open>
  The text an f-string inserts for a value: the string itself, and for any other value
  what \<^verbatim>\<open>str\<close> prints, left as the parameter \<open>fmt\<close>.
\<close>

fun py_str :: "(pyval \<Rightarrow> string) \<Rightarrow> pyval \<Rightarrow> string" where
  "py_str fmt (PStr s) = s"
| "py_str fmt x = fmt x"

section \<open>Delivery, broadcast and the consumer loops: \<^verbatim>\<open>app/utils/websocket.py\<close>\<close>

text \<open>
  The mutable state the module works on: the module-level objects of
  \<^verbatim>\<open>dependencies.py\<close> that its getters hand out (lines 26-45). \<open>sent\<close> lists, in order,
  the messages the transport accepted, and \<open>log\<close> the error lines written by
  \<^verbatim>\<open>logger.error\<close>; neither is read by the code.
\<close>

record ('f, 'ws) world =
  active_connections :: "(string \<times> 'ws) list"
  client_pending_tasks :: "(string \<times> int) list"
  pending_futures :: "('f \<times> string) list"
  processing_results_queue :: "pyval py_queue"
  websocket_responses_queue :: "pyval py_queue"
  sent :: "('ws \<times> pyval) list"
  log :: "string list"

definition world_init :: "('f, 'ws) world" where
  "world_init =
     \<lparr>active_connections = [], client_pending_tasks = [], pending_futures = [],
      processing_results_queue = processing_results_queue_init,
      websocket_responses_queue = websocket_responses_queue_init,
      sent = [], log = []\<rparr>"

text \<open>
  \<^verbatim>\<open>_send_message_to_client\<close> (lines 13-25). The transport call
  \<^verbatim>\<open>websocket.send_json(message)\<close> is the parameter \<open>send_json\<close>: \<open>None\<close> when it returns,
  the exception when it raises. The function turns every exception into \<^verbatim>\<open>False\<close>.
\<close>

definition send_message_to_client ::
  "('ws \<Rightarrow> pyval \<Rightarrow> exn option) \<Rightarrow> 'ws \<Rightarrow> pyval \<Rightarrow> ('f, 'ws) world \<Rightarrow>
   bool \<times> ('f, 'ws) world" where
  "send_message_to_client send_json websocket message w =
     (case send_json websocket message of
        None \<Rightarrow> (True, w\<lparr>sent := sent w @ [(websocket, message)]\<rparr>)
      | Some e \<Rightarrow> (False, w))"

text \<open>\<^verbatim>\<open>send_notification\<close> (lines 66-73).\<close>

definition send_notification ::
  "('ws \<Rightarrow> pyval \<Rightarrow> exn option) \<Rightarrow> 'ws \<Rightarrow> string \<Rightarrow> string \<Rightarrow> ('f, 'ws) world \<Rightarrow>
   bool \<times> ('f, 'ws) world" where
  "send_notification send_json websocket message notification_type w =
     send_message_to_client send_json websocket
       (PDict [(''type'', PStr ''notification''),
               (''notification_type'', PStr notification_type),
               (''message'', PStr message)]) w"

text \<open>
  Lines 34-38 of \<^verbatim>\<open>broadcast_attendance_update\<close>: a deletion without \<^verbatim>\<open>objectId\<close> takes
  it from \<^verbatim>\<open>attendance_id\<close>. \<^verbatim>\<open>attendance_data.get\<close> exists on a dictionary only.
\<close>

fun ensure_objectId :: "pyval \<Rightarrow> exn + pyval" where
  "ensure_objectId (PDict kvs) =
     Inr (if map_of kvs ''action'' = Some (PStr ''delete'') \<and> \<not> dict_has ''objectId'' kvs
          then (if dict_has ''attendance_id'' kvs
                then PDict (dict_set ''objectId'' (the (map_of kvs ''attendance_id'')) kvs)
                else PDict kvs)
          else PDict kvs)"
| "ensure_objectId x = py_get x ''action'' PNone"

text \<open>Lines 41-44: the envelope of a broadcast.\<close>

definition attendance_update_message :: "pyval \<Rightarrow> pyval" where
  "attendance_update_message data =
     PDict [(''type'', PStr ''attendance_update''), (''data'', data)]"

text \<open>
  Lines 50-55: one send per registered connection, all awaited by
  \<^verbatim>\<open>asyncio.gather(..., return_exceptions=True)\<close>, whose result list has one entry per
  connection, in the order of the dictionary: the returned flag, or an exception.
\<close>

fun gather_sends ::
  "('ws \<Rightarrow> pyval \<Rightarrow> exn option) \<Rightarrow> (string \<times> 'ws) list \<Rightarrow> pyval \<Rightarrow> ('f, 'ws) world \<Rightarrow>
   (exn + bool) list \<times> ('f, 'ws) world" where
  "gather_sends send_json [] message w = ([], w)"
| "gather_sends send_json ((client_id, websocket) # rest) message w =
     (let (ok, w1) = send_message_to_client send_json websocket message w;
          (results, w2) = gather_sends send_json rest message w1
      in (Inr ok # results, w2))"

text \<open>Line 59: \<^verbatim>\<open>isinstance(results[i], Exception) or results[i] is False\<close>.\<close>

fun delivery_failed :: "exn + bool \<Rightarrow> bool" where
  "delivery_failed (Inl e) = True"
| "delivery_failed (Inr ok) = (\<not> ok)"

text \<open>Lines 61-63 and the same guard at lines 143, 162, 173 and 195.\<close>

definition remove_client :: "string \<Rightarrow> (string \<times> 'ws) list \<Rightarrow> (string \<times> 'ws) list" where
  "remove_client client_id conns =
     (if dict_has client_id conns then dict_del client_id conns else conns)"

text \<open>
  \<^verbatim>\<open>broadcast_attendance_update\<close> (lines 27-64). The result is the exception that leaves
  the function, if any, and the state it leaves behind.

  The sends are created from the registry in one go (lines 50-52) and awaited together on
  line 55. While the coroutine waits there the event loop runs the other coroutines, which
  register and remove connections in the same dictionary: \<open>meanwhile\<close> is what they have made
  of the registry when \<^verbatim>\<open>gather\<close> returns. Lines 58-59 then read the keys of the
  dictionary again and look up \<^verbatim>\<open>results[i]\<close> by the position \<open>i\<close> of each key, which
  raises \<^verbatim>\<open>IndexError\<close> as soon as there are more keys than results.
\<close>

definition broadcast_attendance_update ::
  "('ws \<Rightarrow> pyval \<Rightarrow> exn option) \<Rightarrow> ((string \<times> 'ws) list \<Rightarrow> (string \<times> 'ws) list) \<Rightarrow>
   pyval \<Rightarrow> ('f, 'ws) world \<Rightarrow> exn option \<times> ('f, 'ws) world" where
  "broadcast_attendance_update send_json meanwhile attendance_data w =
     (if active_connections w = [] then (None, w)
      else (case ensure_objectId attendance_data of
              Inl e \<Rightarrow> (Some e, w)
            | Inr data \<Rightarrow>
                (let message = attendance_update_message data;
                     (results, w1) = gather_sends send_json (active_connections w) message w;
                     w2 = w1\<lparr>active_connections := meanwhile (active_connections w1)\<rparr>;
                     keys = map fst (active_connections w2)
                 in if length results < length keys
                    then (Some (IndexError ''list index out of range''), w2)
                    else (let disconnected_clients =
                                map fst (filter (\<lambda>(client_id, r). delivery_failed r)
                                           (zip keys results))
                          in (None,
                              w2\<lparr>active_connections :=
                                   fold remove_client disconnected_clients
                                     (active_connections w2)\<rparr>)))))"

text \<open>
  How one pass through the body of a consumer loop ends: it reaches the
  \<^verbatim>\<open>await asyncio.sleep(0.1)\<close> at the bottom of the \<^verbatim>\<open>try\<close> block, it leaves through a
  \<^verbatim>\<open>continue\<close>, or an exception leaves the \<^verbatim>\<open>try\<close> block.
\<close>

datatype flow = Fallthrough | Continue | Raises exn

text \<open>
  The body of \<^verbatim>\<open>process_queue\<close> inside \<^verbatim>\<open>try\<close> (lines 93-104). \<^verbatim>\<open>task_done\<close> only
  counts for \<^verbatim>\<open>join\<close>, which nothing calls, and is left out.
\<close>

definition process_queue_body ::
  "('ws \<Rightarrow> pyval \<Rightarrow> exn option) \<Rightarrow>
   ((string \<times> 'ws) list \<Rightarrow> (string \<times> 'ws) list) \<Rightarrow> ('f, 'ws) world \<Rightarrow> flow \<times> ('f, 'ws) world" where
  "process_queue_body send_json meanwhile w =
     (case queue_get (processing_results_queue w) of
        None \<Rightarrow> (Fallthrough, w)
      | Some (item, q) \<Rightarrow>
          (let w1 = w\<lparr>processing_results_queue := q\<rparr>
           in case py_get item ''type'' PNone of
                Inl e \<Rightarrow> (Raises e, w1)
              | Inr t \<Rightarrow>
                  if t = PStr ''attendance_update''
                  then (case py_get item ''data'' (PList []) of
                          Inl e \<Rightarrow> (Raises e, w1)
                        | Inr data \<Rightarrow>
                            (case broadcast_attendance_update send_json meanwhile data w1 of
                               (Some e, w2) \<Rightarrow> (Raises e, w2)
                             | (None, w2) \<Rightarrow> (Fallthrough, w2)))
                  else (Fallthrough, w1)))"

text \<open>
  The end of an iteration of either loop (lines 106-111 and 205-210): the seconds slept and
  the state. An exception is logged with the loop's prefix and followed by the long sleep;
  a \<^verbatim>\<open>continue\<close> starts the next iteration without sleeping.
\<close>

fun end_iteration :: "string \<Rightarrow> flow \<times> ('f, 'ws) world \<Rightarrow> real \<times> ('f, 'ws) world" where
  "end_iteration prefix (Fallthrough, w) = (1 / 10, w)"
| "end_iteration prefix (Continue, w) = (0, w)"
| "end_iteration prefix (Raises e, w) = (1, w\<lparr>log := log w @ [prefix @ str_of_exn e]\<rparr>)"

definition process_queue_iteration ::
  "('ws \<Rightarrow> pyval \<Rightarrow> exn option) \<Rightarrow>
   ((string \<times> 'ws) list \<Rightarrow> (string \<times> 'ws) list) \<Rightarrow> ('f, 'ws) world \<Rightarrow> real \<times> ('f, 'ws) world" where
  "process_queue_iteration send_json meanwhile w =
     end_iteration ''Error processing queue: '' (process_queue_body send_json meanwhile w)"

text \<open>
  \<^verbatim>\<open>process_queue\<close> (lines 88-111). \<^verbatim>\<open>while True\<close> has no exit of its own; the first
  argument is the number of iterations observed, and the result lists the sleeps they made.
\<close>

fun process_queue ::
  "nat \<Rightarrow> ('ws \<Rightarrow> pyval \<Rightarrow> exn option) \<Rightarrow>
   ((string \<times> 'ws) list \<Rightarrow> (string \<times> 'ws) list) \<Rightarrow> ('f, 'ws) world \<Rightarrow> real list \<times> ('f, 'ws) world" where
  "process_queue 0 send_json meanwhile w = ([], w)"
| "process_queue (Suc n) send_json meanwhile w =
     (let (d, w1) = process_queue_iteration send_json meanwhile w;
          (ds, w2) = process_queue n send_json meanwhile w1
      in (d # ds, w2))"

text \<open>
  \<^verbatim>\<open>client_id not in active_connections\<close> and \<^verbatim>\<open>active_connections[client_id]\<close>
  (lines 127 and 132) for the value found in the item: a list or a dictionary cannot be
  hashed, and a value that is not a string is no key of the registry.
\<close>

fun lookup_connection :: "pyval \<Rightarrow> (string \<times> 'ws) list \<Rightarrow> exn + (string \<times> 'ws) option" where
  "lookup_connection (PStr s) conns = Inr (map_option (\<lambda>ws. (s, ws)) (map_of conns s))"
| "lookup_connection (PList xs) conns = Inl (TypeError (''unhashable type: '' @ quoted ''list''))"
| "lookup_connection (PDict kvs) conns = Inl (TypeError (''unhashable type: '' @ quoted ''dict''))"
| "lookup_connection x conns = Inr None"

text \<open>
  The pattern of lines 136-144, 155-163 and 166-174: send the status, send the
  notification whatever became of the status, then drop the connection when the status
  (not the notification) failed.
\<close>

definition respond ::
  "('ws \<Rightarrow> pyval \<Rightarrow> exn option) \<Rightarrow> 'ws \<Rightarrow> string \<Rightarrow> pyval \<Rightarrow> string \<Rightarrow> string \<Rightarrow>
   ('f, 'ws) world \<Rightarrow> ('f, 'ws) world" where
  "respond send_json websocket client_id status text notification_type w =
     (let (success, w1) = send_message_to_client send_json websocket status w;
          (notified, w2) = send_notification send_json websocket text notification_type w1
      in if \<not> success
         then w2\<lparr>active_connections := remove_client client_id (active_connections w2)\<rparr>
         else w2)"

text \<open>Lines 187-193: the text of the summary notification.\<close>

definition summary_text :: "(pyval \<Rightarrow> string) \<Rightarrow> pyval \<Rightarrow> exn + string" where
  "summary_text fmt processed_users =
     (case py_len processed_users of
        Inl e \<Rightarrow> Inl e
      | Inr n \<Rightarrow>
          if n = 1
          then (case py_first processed_users of
                  Inl e \<Rightarrow> Inl e
                | Inr u \<Rightarrow>
                    (case py_get u ''name'' (PStr ''Unknown'') of
                       Inl e \<Rightarrow> Inl e
                     | Inr name \<Rightarrow>
                         (case py_get u ''employee_id'' (PStr ''Unknown'') of
                            Inl e \<Rightarrow> Inl e
                          | Inr employee_id \<Rightarrow>
                              Inr (''Face detected: '' @ py_str fmt name @ '' (ID: ''
                                   @ py_str fmt employee_id @ '')''))))
          else Inr (''Multiple faces detected: '' @ fmt (PInt (int n))
                    @ '' people identified''))"

text \<open>Lines 175-200: the branch for a result with processed users.\<close>

definition respond_users ::
  "(pyval \<Rightarrow> string) \<Rightarrow> ('ws \<Rightarrow> pyval \<Rightarrow> exn option) \<Rightarrow>
   ((string \<times> 'ws) list \<Rightarrow> (string \<times> 'ws) list) \<Rightarrow> 'ws \<Rightarrow> string \<Rightarrow> pyval \<Rightarrow> pyval \<Rightarrow>
   ('f, 'ws) world \<Rightarrow> flow \<times> ('f, 'ws) world" where
  "respond_users fmt send_json meanwhile websocket client_id processed_users attendance_updates w =
     (let (success, w1) =
            send_message_to_client send_json websocket
              (PDict [(''multiple_users'', PBool True), (''users'', processed_users)]) w
      in case summary_text fmt processed_users of
           Inl e \<Rightarrow> (Raises e, w1)
         | Inr notification_msg \<Rightarrow>
             (let (notified, w2) =
                    send_notification send_json websocket notification_msg ''success'' w1;
                  w3 = (if \<not> success
                        then w2\<lparr>active_connections :=
                                  remove_client client_id (active_connections w2)\<rparr>
                        else w2)
              in if py_truthy attendance_updates
                 then (case broadcast_attendance_update send_json meanwhile attendance_updates w3 of
                         (Some e, w4) \<Rightarrow> (Raises e, w4)
                       | (None, w4) \<Rightarrow> (Fallthrough, w4))
                 else (Fallthrough, w3)))"

text \<open>Lines 148-200: an item that is not an error.\<close>

definition respond_result ::
  "(pyval \<Rightarrow> string) \<Rightarrow> ('ws \<Rightarrow> pyval \<Rightarrow> exn option) \<Rightarrow>
   ((string \<times> 'ws) list \<Rightarrow> (string \<times> 'ws) list) \<Rightarrow> 'ws \<Rightarrow> string \<Rightarrow> pyval \<Rightarrow>
   ('f, 'ws) world \<Rightarrow> flow \<times> ('f, 'ws) world" where
  "respond_result fmt send_json meanwhile websocket client_id item w =
     (case py_getitem item ''processed_users'' of
        Inl e \<Rightarrow> (Raises e, w)
      | Inr processed_users \<Rightarrow>
          (case py_getitem item ''attendance_updates'' of
             Inl e \<Rightarrow> (Raises e, w)
           | Inr attendance_updates \<Rightarrow>
               if \<not> py_truthy processed_users
               then (case py_getitem item ''no_face_count'' of
                       Inl e \<Rightarrow> (Raises e, w)
                     | Inr no_face_count \<Rightarrow>
                         (case py_positive no_face_count of
                            Inl e \<Rightarrow> (Raises e, w)
                          | Inr no_face \<Rightarrow>
                              if no_face
                              then (Fallthrough,
                                    respond send_json websocket client_id
                                      (PDict [(''status'', PStr ''no_face_detected'')])
                                      ''No face detected in the image'' ''warning'' w)
                              else (Fallthrough,
                                    respond send_json websocket client_id
                                      (PDict [(''status'', PStr ''no_matching_users'')])
                                      ''No matching users found'' ''warning'' w)))
               else respond_users fmt send_json meanwhile websocket client_id processed_users
                      attendance_updates w))"

text \<open>The body of \<^verbatim>\<open>process_websocket_responses\<close> inside \<^verbatim>\<open>try\<close> (lines 120-203).\<close>

definition process_websocket_responses_body ::
  "(pyval \<Rightarrow> string) \<Rightarrow> ('ws \<Rightarrow> pyval \<Rightarrow> exn option) \<Rightarrow>
   ((string \<times> 'ws) list \<Rightarrow> (string \<times> 'ws) list) \<Rightarrow> ('f, 'ws) world \<Rightarrow>
   flow \<times> ('f, 'ws) world" where
  "process_websocket_responses_body fmt send_json meanwhile w =
     (case queue_get (websocket_responses_queue w) of
        None \<Rightarrow> (Fallthrough, w)
      | Some (item, q) \<Rightarrow>
          (let w0 = w\<lparr>websocket_responses_queue := q\<rparr>
           in case py_getitem item ''client_id'' of
                Inl e \<Rightarrow> (Raises e, w0)
              | Inr client \<Rightarrow>
                  (case lookup_connection client (active_connections w0) of
                     Inl e \<Rightarrow> (Raises e, w0)
                   | Inr None \<Rightarrow> (Continue, w0)
                   | Inr (Some (client_id, websocket)) \<Rightarrow>
                       (case py_in ''error'' item of
                          Inl e \<Rightarrow> (Raises e, w0)
                        | Inr is_error \<Rightarrow>
                            if is_error
                            then (case py_getitem item ''error'' of
                                    Inl e \<Rightarrow> (Raises e, w0)
                                  | Inr err \<Rightarrow>
                                      (Continue,
                                       respond send_json websocket client_id
                                         (PDict [(''status'', PStr ''processing_error''),
                                                 (''message'', err)])
                                         (''Error processing: '' @ py_str fmt err) ''error'' w0))
                            else respond_result fmt send_json meanwhile websocket client_id item w0))))"

definition process_websocket_responses_iteration ::
  "(pyval \<Rightarrow> string) \<Rightarrow> ('ws \<Rightarrow> pyval \<Rightarrow> exn option) \<Rightarrow>
   ((string \<times> 'ws) list \<Rightarrow> (string \<times> 'ws) list) \<Rightarrow> ('f, 'ws) world \<Rightarrow>
   real \<times> ('f, 'ws) world" where
  "process_websocket_responses_iteration fmt send_json meanwhile w =
     end_iteration ''Error processing websocket responses: ''
       (process_websocket_responses_body fmt send_json meanwhile w)"

text \<open>\<^verbatim>\<open>process_websocket_responses\<close> (lines 113-210), with the iterations counted.\<close>

fun process_websocket_responses ::
  "nat \<Rightarrow> (pyval \<Rightarrow> string) \<Rightarrow> ('ws \<Rightarrow> pyval \<Rightarrow> exn option) \<Rightarrow>
   ((string \<times> 'ws) list \<Rightarrow> (string \<times> 'ws) list) \<Rightarrow> ('f, 'ws) world \<Rightarrow>
   real list \<times> ('f, 'ws) world" where
  "process_websocket_responses 0 fmt send_json meanwhile w = ([], w)"
| "process_websocket_responses (Suc n) fmt send_json meanwhile w =
     (let (d, w1) = process_websocket_responses_iteration fmt send_json meanwhile w;
          (ds, w2) = process_websocket_responses n fmt send_json meanwhile w1
      in (d # ds, w2))"

section \<open>Completion of a worker task: \<^verbatim>\<open>handle_future_completion\<close>\<close>

text \<open>
  Line 219: \<^verbatim>\<open>a, b, c, d = future.result()\<close> draws exactly four values from the result.
\<close>

definition unpack_result :: "pyval \<Rightarrow> exn + (pyval \<times> pyval \<times> pyval \<times> pyval)" where
  "unpack_result r =
     (case py_iter r of
        Inl e \<Rightarrow> Inl (TypeError (''cannot unpack non-iterable '' @ type_name r @ '' object''))
      | Inr xs \<Rightarrow>
          (case xs of
             [a, b, c, d] \<Rightarrow> Inr (a, b, c, d)
           | _ \<Rightarrow>
               if length xs < 4
               then Inl (ValueError (''not enough values to unpack (expected 4, got ''
                          @ [char_of (48 + length xs)] @ '')''))
               else Inl (ValueError ''too many values to unpack (expected 4)'')))"

text \<open>
  Lines 224-227, for one update: \<^verbatim>\<open>if dst not in update and src in update:
  update[dst] = update[src]\<close>.
\<close>

definition copy_key :: "string \<Rightarrow> string \<Rightarrow> pyval \<Rightarrow> exn + pyval" where
  "copy_key dst src update =
     (case py_in dst update of
        Inl e \<Rightarrow> Inl e
      | Inr has_dst \<Rightarrow>
          if has_dst then Inr update
          else (case py_in src update of
                  Inl e \<Rightarrow> Inl e
                | Inr has_src \<Rightarrow>
                    if \<not> has_src then Inr update
                    else (case py_getitem update src of
                            Inl e \<Rightarrow> Inl e
                          | Inr v \<Rightarrow> py_setitem update dst v)))"

definition patch_update :: "pyval \<Rightarrow> exn + pyval" where
  "patch_update update =
     (case copy_key ''objectId'' ''attendance_id'' update of
        Inl e \<Rightarrow> Inl e
      | Inr update1 \<Rightarrow> copy_key ''id'' ''employee_id'' update1)"

text \<open>The loop of line 223 over the updates.\<close>

fun patch_updates :: "pyval list \<Rightarrow> exn + pyval list" where
  "patch_updates [] = Inr []"
| "patch_updates (update # rest) =
     (case patch_update update of
        Inl e \<Rightarrow> Inl e
      | Inr update1 \<Rightarrow>
          (case patch_updates rest of
             Inl e \<Rightarrow> Inl e
           | Inr rest1 \<Rightarrow> Inr (update1 # rest1)))"

text \<open>
  Lines 222-227. The updates of a list are changed in place, so the list put on the queues
  is the patched one; the keys of a dictionary and the characters of a string are
  immutable, so looping over them changes nothing or raises.
\<close>

definition patch_attendance_updates :: "pyval \<Rightarrow> exn + pyval" where
  "patch_attendance_updates attendance_updates =
     (if \<not> py_truthy attendance_updates then Inr attendance_updates
      else (case py_iter attendance_updates of
              Inl e \<Rightarrow> Inl e
            | Inr updates \<Rightarrow>
                (case patch_updates updates of
                   Inl e \<Rightarrow> Inl e
                 | Inr patched \<Rightarrow>
                     (case attendance_updates of
                        PList xs \<Rightarrow> Inr (PList patched)
                      | _ \<Rightarrow> Inr attendance_updates))))"

text \<open>
  Lines 230-232 and 253-255: the decrement of the client's counter, under the lock, only
  when the client has a counter, never below zero.
\<close>

definition decrement_pending :: "string \<Rightarrow> (string \<times> int) list \<Rightarrow> (string \<times> int) list" where
  "decrement_pending client_id tasks =
     (case map_of tasks client_id of
        None \<Rightarrow> tasks
      | Some n \<Rightarrow> dict_set client_id (max 0 (n - 1)) tasks)"

text \<open>
  Lines 263-266: the first entry of \<^verbatim>\<open>pending_futures\<close> whose value is the client is
  deleted, and the loop stops.
\<close>

fun remove_first_value :: "'v \<Rightarrow> ('k \<times> 'v) list \<Rightarrow> ('k \<times> 'v) list" where
  "remove_first_value v [] = []"
| "remove_first_value v ((k, v') # kvs) =
     (if v' = v then kvs else (k, v') # remove_first_value v kvs)"

text \<open>
  What \<^verbatim>\<open>future.result()\<close> does on line 219: it returns the value of the work, or it
  raises again what the work raised. \<^verbatim>\<open>except Exception\<close> on line 250 catches the
  exceptions of the \<^verbatim>\<open>Exception\<close> hierarchy, here \<open>exn\<close>; \<^verbatim>\<open>SystemExit\<close>,
  \<^verbatim>\<open>KeyboardInterrupt\<close> and whatever else derives from \<^verbatim>\<open>BaseException\<close> only pass
  through it.
\<close>

datatype base_exn = SystemExit string | KeyboardInterrupt string | BaseException string

datatype future_result = Returned pyval | Raised exn | Raised_base base_exn

text \<open>
  Lines 229-248, after the updates have been patched: the decrement, the result put on the
  response queue, and the updates, if any, put on the event queue. A \<^verbatim>\<open>put\<close> on a full
  queue waits; with nothing else running the call then never returns, which is the result
  \<open>None\<close>.
\<close>

definition put_results ::
  "string \<Rightarrow> pyval \<Rightarrow> pyval \<Rightarrow> pyval \<Rightarrow> pyval \<Rightarrow> ('f, 'ws) world \<Rightarrow> ('f, 'ws) world option" where
  "put_results client_id processed_users attendance_updates last_recognized_users
     no_face_count w =
     (let w1 = w\<lparr>client_pending_tasks :=
                   decrement_pending client_id (client_pending_tasks w)\<rparr>
      in case queue_put
                (PDict [(''client_id'', PStr client_id),
                        (''processed_users'', processed_users),
                        (''attendance_updates'', attendance_updates),
                        (''last_recognized_users'', last_recognized_users),
                        (''no_face_count'', no_face_count)])
                (websocket_responses_queue w1) of
           None \<Rightarrow> None
         | Some q \<Rightarrow>
             (let w2 = w1\<lparr>websocket_responses_queue := q\<rparr>
              in if py_truthy attendance_updates
                 then (case queue_put
                              (PDict [(''type'', PStr ''attendance_update''),
                                      (''data'', attendance_updates)])
                              (processing_results_queue w2) of
                         None \<Rightarrow> None
                       | Some q' \<Rightarrow> Some (w2\<lparr>processing_results_queue := q'\<rparr>))
                 else Some w2))"

text \<open>The \<^verbatim>\<open>except Exception\<close> clause (lines 250-260).\<close>

definition except_clause :: "exn \<Rightarrow> string \<Rightarrow> ('f, 'ws) world \<Rightarrow> ('f, 'ws) world option" where
  "except_clause e client_id w =
     (let w1 = w\<lparr>log := log w @ [''Error handling future completion: '' @ str_of_exn e],
                 client_pending_tasks :=
                   decrement_pending client_id (client_pending_tasks w)\<rparr>
      in case queue_put
                (PDict [(''client_id'', PStr client_id), (''error'', PStr (str_of_exn e))])
                (websocket_responses_queue w1) of
           None \<Rightarrow> None
         | Some q \<Rightarrow> Some (w1\<lparr>websocket_responses_queue := q\<rparr>))"

text \<open>The \<^verbatim>\<open>finally\<close> clause (lines 261-266).\<close>

definition finally_clause :: "string \<Rightarrow> ('f, 'ws) world \<Rightarrow> ('f, 'ws) world" where
  "finally_clause client_id w =
     w\<lparr>pending_futures := remove_first_value client_id (pending_futures w)\<rparr>"

text \<open>
  \<^verbatim>\<open>handle_future_completion\<close> (lines 212-266). \<open>result\<close> is what \<^verbatim>\<open>future.result()\<close>
  returns or raises. Everything that can raise inside \<^verbatim>\<open>try\<close> comes before the first
  change of state, so the \<^verbatim>\<open>except\<close> clause starts from the state of the call. An
  exception that line 250 does not catch leaves the handler after the \<^verbatim>\<open>finally\<close> clause
  alone has run: the first component of the result is that exception, \<open>None\<close> when the
  handler returns normally. The outer \<open>None\<close> is a \<^verbatim>\<open>put\<close> that waits.
\<close>

definition handle_future_completion ::
  "future_result \<Rightarrow> string \<Rightarrow> ('f, 'ws) world \<Rightarrow> (base_exn option \<times> ('f, 'ws) world) option" where
  "handle_future_completion result client_id w =
     (case result of
        Raised_base b \<Rightarrow> Some (Some b, finally_clause client_id w)
      | Raised e \<Rightarrow>
          map_option (\<lambda>w'. (None, finally_clause client_id w')) (except_clause e client_id w)
      | Returned r \<Rightarrow>
          map_option (\<lambda>w'. (None, finally_clause client_id w'))
            (case unpack_result r of
               Inl e \<Rightarrow> except_clause e client_id w
             | Inr (processed_users, attendance_updates, last_recognized_users,
                    no_face_count) \<Rightarrow>
                 (case patch_attendance_updates attendance_updates of
                    Inl e \<Rightarrow> except_clause e client_id w
                  | Inr patched \<Rightarrow>
                      put_results client_id processed_users patched last_recognized_users
                        no_face_count w)))"

section \<open>Submission of a task\<close>









section \<open>Properties of the matching engine\<close>

lemma compare_faces_None: "compare_faces cs None x = Fin 0" "compare_faces cs x None = Fin 0"
  by (simp_all add: compare_faces_def)

lemma py_gt_Fin: "py_gt s (Fin b) \<longleftrightarrow> (\<exists>x. s = Fin x \<and> b < x)"
  by (cases s) auto

lemma scan_users_track:
  "\<forall>u\<in>set users. s2e (embedding u) = Inr (dec u) \<Longrightarrow>
   scan_users cs s2e q users best =
     Inr (track_best (map (\<lambda>u. (u, compare_faces cs q (Some (dec u)))) users) best)"
proof (induction users arbitrary: best)
  case Nil
  show ?case by simp
next
  case (Cons u users)
  obtain bm bs where best: "best = (bm, bs)" by (cases best)
  from Cons.prems have dec: "s2e (embedding u) = Inr (dec u)"
    and rest: "\<forall>u\<in>set users. s2e (embedding u) = Inr (dec u)" by simp_all
  show ?case
    unfolding best using dec Cons.IH [OF rest] by (simp add: Let_def)
qed

lemma fin_values_mem: "x \<in> set (fin_values ss) \<longleftrightarrow> Fin x \<in> set ss"
  by (induction ss rule: fin_values.induct) auto

lemma find_fin_Some:
  "Fin m \<in> snd ` set cands \<Longrightarrow> find (\<lambda>(u, s). s = Fin m) cands \<noteq> None"
  by (induction cands) auto

lemma track_best_char:
  "track_best cands (bm, Fin b) =
     (if \<exists>x\<in>set (fin_values (map snd cands)). b < x
      then (first_with_similarity (Max (set (fin_values (map snd cands)))) cands,
            Fin (Max (set (fin_values (map snd cands)))))
      else (bm, Fin b))"
proof (induction cands arbitrary: bm b)
  case Nil
  show ?case by simp
next
  case (Cons c cands)
  obtain u s where c: "c = (u, s)" by (cases c)
  let ?vs = "fin_values (map snd cands)"
  show ?case
  proof (cases s)
    case NaN
    then show ?thesis unfolding c using Cons.IH [of bm b]
      by (simp add: first_with_similarity_def)
  next
    case (Fin x)
    show ?thesis
    proof (cases "b < x")
      case True
      note bx = True
      show ?thesis
      proof (cases "\<exists>y\<in>set ?vs. x < y")
        case True
        then obtain y where y: "y \<in> set ?vs" "x < y" by blast
        have fin: "finite (set ?vs)" "set ?vs \<noteq> {}" using y by auto
        have "x < Max (set ?vs)" using y fin by (meson Max_ge less_le_trans)
        then have mx: "Max (insert x (set ?vs)) = Max (set ?vs)" "x \<noteq> Max (set ?vs)"
          using fin by (auto simp: max_def)
        show ?thesis unfolding c Fin using Cons.IH [of "Some u" x] True bx mx
          by (auto simp: first_with_similarity_def)
      next
        case False
        then have le: "\<forall>y\<in>set ?vs. y \<le> x" by auto
        have mx: "Max (insert x (set ?vs)) = x"
          using le by (cases "set ?vs = {}") (auto simp: max_def intro: antisym)
        show ?thesis unfolding c Fin using Cons.IH [of "Some u" x] False bx mx
          by (auto simp: first_with_similarity_def)
      qed
    next
      case False
      note nbx = False
      show ?thesis
      proof (cases "\<exists>y\<in>set ?vs. b < y")
        case True
        then obtain y where y: "y \<in> set ?vs" "b < y" by blast
        have fin: "finite (set ?vs)" "set ?vs \<noteq> {}" using y by auto
        have "b < Max (set ?vs)" using y fin by (meson Max_ge less_le_trans)
        then have "x < Max (set ?vs)" using nbx by simp
        then have mx: "Max (insert x (set ?vs)) = Max (set ?vs)" "x \<noteq> Max (set ?vs)"
          using fin by (auto simp: max_def)
        show ?thesis unfolding c Fin using Cons.IH [of bm b] True nbx mx
          by (auto simp: first_with_similarity_def)
      next
        case False
        show ?thesis unfolding c Fin using Cons.IH [of bm b] False nbx
          by (auto simp: first_with_similarity_def)
      qed
    qed
  qed
qed

lemma track_best_positive:
  "track_best cands (None, Fin 0) = (bm, bs) \<Longrightarrow>
   \<exists>s. bs = Fin s \<and> 0 \<le> s \<and> (bm \<noteq> None \<longrightarrow> 0 < s)"
proof -
  have gen: "\<And>bm0 b0. 0 \<le> b0 \<Longrightarrow> (bm0 \<noteq> None \<longrightarrow> 0 < b0) \<Longrightarrow>
      track_best cands (bm0, Fin b0) = (bm, bs) \<Longrightarrow>
      \<exists>s. bs = Fin s \<and> 0 \<le> s \<and> (bm \<noteq> None \<longrightarrow> 0 < s)"
  proof (induction cands)
    case Nil
    then show ?case by auto
  next
    case (Cons c cands)
    obtain u s where c: "c = (u, s)" by (cases c)
    show ?case
    proof (cases "py_gt s (Fin b0)")
      case True
      then obtain x where x: "s = Fin x" "b0 < x" by (auto simp: py_gt_Fin)
      from Cons.prems(3) True have "track_best cands (Some u, Fin x) = (bm, bs)"
        unfolding c x by simp
      moreover have "0 \<le> x" "Some u \<noteq> None \<longrightarrow> 0 < x" using x Cons.prems(1) by auto
      ultimately show ?thesis using Cons.IH [of x "Some u"] by blast
    next
      case False
      with Cons.prems(3) have "track_best cands (bm0, Fin b0) = (bm, bs)"
        unfolding c by simp
      then show ?thesis using Cons.IH [of b0 bm0] Cons.prems(1,2) by blast
    qed
  qed
  assume "track_best cands (None, Fin 0) = (bm, bs)"
  then show ?thesis using gen [of 0 None] by simp
qed

lemma scan_users_positive:
  "scan_users cs s2e q users (bm0, Fin b0) = Inr (bm, bs) \<Longrightarrow> 0 \<le> b0 \<Longrightarrow>
   (bm0 \<noteq> None \<longrightarrow> 0 < b0) \<Longrightarrow>
   \<exists>s. bs = Fin s \<and> 0 \<le> s \<and> (bm \<noteq> None \<longrightarrow> 0 < s)"
proof (induction users arbitrary: bm0 b0)
  case Nil
  then show ?case by auto
next
  case (Cons u users)
  from Cons.prems(1) obtain emb where emb: "s2e (embedding u) = Inr emb"
    by (cases "s2e (embedding u)") auto
  let ?sim = "compare_faces cs q (Some emb)"
  show ?case
  proof (cases "py_gt ?sim (Fin b0)")
    case True
    then obtain x where x: "?sim = Fin x" "b0 < x" by (auto simp: py_gt_Fin)
    from Cons.prems(1) emb True x have "scan_users cs s2e q users (Some u, Fin x) = Inr (bm, bs)"
      by (simp add: Let_def)
    moreover have "0 \<le> x" "Some u \<noteq> None \<longrightarrow> 0 < x" using x Cons.prems(2) by auto
    ultimately show ?thesis using Cons.IH [of "Some u" x] by blast
  next
    case False
    with Cons.prems(1) emb have "scan_users cs s2e q users (bm0, Fin b0) = Inr (bm, bs)"
      by (simp add: Let_def)
    then show ?thesis using Cons.IH [of bm0 b0] Cons.prems(2,3) by blast
  qed
qed

lemma find_matches_loop_positive:
  "find_matches_loop cs s2e qs users thr acc = Inr ms \<Longrightarrow>
   \<forall>m\<in>set acc. \<exists>s. similarity m = Fin s \<and> 0 < s \<Longrightarrow>
   \<forall>m\<in>set ms. \<exists>s. similarity m = Fin s \<and> 0 < s"
proof (induction qs arbitrary: acc)
  case Nil
  then show ?case by simp
next
  case (Cons qb qs)
  obtain q bx where qb: "qb = (q, bx)" by (cases qb)
  from Cons.prems(1) obtain bm bs where
    scan: "scan_users cs s2e q users (None, Fin 0) = Inr (bm, bs)"
    unfolding qb by (cases "scan_users cs s2e q users (None, Fin 0)") auto
  from scan_users_positive [OF scan] obtain s where
    s: "bs = Fin s" "0 \<le> s" "bm \<noteq> None \<longrightarrow> 0 < s" by auto
  show ?case
  proof (cases "py_ge bs (Fin thr) \<and> bm \<noteq> None")
    case True
    let ?acc = "acc @ [\<lparr>user = the bm, similarity = bs, bbox = bx\<rparr>]"
    from Cons.prems(1) scan True have "find_matches_loop cs s2e qs users thr ?acc = Inr ms"
      unfolding qb by simp
    moreover have "\<forall>m\<in>set ?acc. \<exists>s. similarity m = Fin s \<and> 0 < s"
      using Cons.prems(2) True s by auto
    ultimately show ?thesis by (rule Cons.IH)
  next
    case False
    with Cons.prems(1) scan have "find_matches_loop cs s2e qs users thr acc = Inr ms"
      unfolding qb by auto
    then show ?thesis using Cons.prems(2) by (rule Cons.IH)
  qed
qed

lemma find_matches_loop_map_filter:
  assumes dec: "\<forall>u\<in>set users. s2e (embedding u) = Inr (dec u)"
  shows "find_matches_loop cs s2e qs users thr acc =
     Inr (acc @ List.map_filter
       (\<lambda>(q, bx). positive_match_face
          (map (\<lambda>u. (u, compare_faces cs q (Some (dec u)))) users) thr bx) qs)"
proof (induction qs arbitrary: acc)
  case Nil
  show ?case by (simp add: List.map_filter_simps)
next
  case (Cons qb qs)
  obtain q bx where qb: "qb = (q, bx)" by (cases qb)
  let ?cands = "map (\<lambda>u. (u, compare_faces cs q (Some (dec u)))) users"
  let ?vs = "fin_values (map snd ?cands)"
  have scan: "scan_users cs s2e q users (None, Fin 0) = Inr (track_best ?cands (None, Fin 0))"
    by (rule scan_users_track [OF dec])
  show ?case
  proof (cases "\<exists>x\<in>set ?vs. 0 < x")
    case True
    then obtain x where x: "x \<in> set ?vs" "0 < x" by blast
    have ne: "?vs \<noteq> []" using x by auto
    have mem: "Max (set ?vs) \<in> set ?vs" using ne by (intro Max_in) auto
    have pos: "0 < Max (set ?vs)" using x by (meson List.finite_set Max_ge less_le_trans)
    have tb: "track_best ?cands (None, Fin 0) =
        (first_with_similarity (Max (set ?vs)) ?cands, Fin (Max (set ?vs)))"
      using True by (simp only: track_best_char if_True)
    from mem have "Fin (Max (set ?vs)) \<in> snd ` set ?cands"
      by (simp only: fin_values_mem set_map)
    then obtain w where w: "first_with_similarity (Max (set ?vs)) ?cands = Some w"
      using find_fin_Some [of "Max (set ?vs)" ?cands]
      by (auto simp: first_with_similarity_def)
    have pm: "positive_match_face ?cands thr bx =
        (if thr \<le> Max (set ?vs)
         then Some \<lparr>user = w, similarity = Fin (Max (set ?vs)), bbox = bx\<rparr> else None)"
      using ne pos w by (simp add: positive_match_face_def max_similarity_def Let_def)
    show ?thesis unfolding qb
      using scan tb w pm Cons.IH by (simp add: List.map_filter_simps)
  next
    case False
    have tb: "track_best ?cands (None, Fin 0) = (None, Fin 0)"
      using False by (simp only: track_best_char if_False)
    have pm: "positive_match_face ?cands thr bx = None"
    proof (cases "?vs = []")
      case True
      then show ?thesis by (simp add: positive_match_face_def max_similarity_def)
    next
      case ne: False
      then have "Max (set ?vs) \<in> set ?vs" by (intro Max_in) auto
      with False have "\<not> 0 < Max (set ?vs)" by blast
      then show ?thesis using ne
        by (simp add: positive_match_face_def max_similarity_def Let_def)
    qed
    show ?thesis unfolding qb
      using scan tb pm Cons.IH by (simp add: List.map_filter_simps)
  qed
qed

lemma scan_users_nothing_positive:
  "\<forall>u\<in>set users. \<exists>emb. s2e (embedding u) = Inr emb \<and>
        \<not> py_gt (compare_faces cs q (Some emb)) (Fin 0) \<Longrightarrow>
   scan_users cs s2e q users (None, Fin 0) = Inr (None, Fin 0)"
  by (induction users) (auto simp: Let_def)

lemma find_matches_loop_skip:
  "scan_users cs s2e q users (None, Fin 0) = Inr (None, Fin 0) \<Longrightarrow>
   find_matches_loop cs s2e (before @ (q, bx) # after) users thr acc =
   find_matches_loop cs s2e (before @ after) users thr acc"
proof (induction before arbitrary: acc)
  case Nil
  then show ?case by simp
next
  case (Cons qb before)
  obtain q' bx' where qb: "qb = (q', bx')" by (cases qb)
  show ?case unfolding qb using Cons.IH [OF Cons.prems]
    by (simp split: sum.splits prod.splits)
qed

lemma find_matches_loop_total:
  "\<forall>u\<in>set users. \<exists>emb. s2e (embedding u) = Inr emb \<Longrightarrow>
   \<exists>ms. find_matches_loop cs s2e qs users thr acc = Inr ms"
proof -
  assume "\<forall>u\<in>set users. \<exists>emb. s2e (embedding u) = Inr emb"
  then have "\<forall>u\<in>set users. s2e (embedding u) = Inr (projr (s2e (embedding u)))"
    by auto
  from find_matches_loop_map_filter [OF this] show ?thesis by blast
qed

text \<open>
  Claim C9. Whatever the other input is, \<^verbatim>\<open>compare_faces\<close> answers the similarity 0.0
  when its first or its second embedding is \<^verbatim>\<open>None\<close>; it has no branch that raises.
\<close>

theorem compare_faces_absent_input:
  "compare_faces cosine None x = Fin 0 \<and> compare_faces cosine x None = Fin 0"
  by (simp add: compare_faces_def)

text \<open>
  Claim C10. For every list of faces and every threshold (also one that is zero or
  negative): every emitted match has a strictly positive similarity; a face none of whose
  candidate similarities exceeds 0.0 adds nothing to the result and raises nothing (the
  result is that of the call without the face); and with no candidates at all the result is
  the empty list.
\<close>

theorem find_matches_never_nonpositive:
  "(find_matches_for_embeddings cosine str_to_embedding query_embeddings users threshold = Inr ms
      \<longrightarrow> (\<forall>m\<in>set ms. \<exists>s. similarity m = Fin s \<and> 0 < s))
   \<and> ((\<forall>u\<in>set users. \<exists>emb. str_to_embedding (embedding u) = Inr emb \<and>
          \<not> py_gt (compare_faces cosine q (Some emb)) (Fin 0))
      \<longrightarrow> find_matches_for_embeddings cosine str_to_embedding (before @ (q, bx) # after)
            users threshold
          = find_matches_for_embeddings cosine str_to_embedding (before @ after) users threshold
        \<and> (\<exists>ms'. find_matches_for_embeddings cosine str_to_embedding
              (before @ (q, bx) # after) users threshold = Inr ms'))
   \<and> find_matches_for_embeddings cosine str_to_embedding query_embeddings [] threshold = Inr []"
proof (intro conjI impI)
  assume "find_matches_for_embeddings cosine str_to_embedding query_embeddings users threshold
    = Inr ms"
  then show "\<forall>m\<in>set ms. \<exists>s. similarity m = Fin s \<and> 0 < s"
    unfolding find_matches_for_embeddings_def
    by (rule find_matches_loop_positive) simp
next
  assume h: "\<forall>u\<in>set users. \<exists>emb. str_to_embedding (embedding u) = Inr emb \<and>
          \<not> py_gt (compare_faces cosine q (Some emb)) (Fin 0)"
  from scan_users_nothing_positive [OF h]
  show "find_matches_for_embeddings cosine str_to_embedding (before @ (q, bx) # after)
            users threshold
          = find_matches_for_embeddings cosine str_to_embedding (before @ after) users threshold"
    unfolding find_matches_for_embeddings_def by (rule find_matches_loop_skip)
  from h have "\<forall>u\<in>set users. \<exists>emb. str_to_embedding (embedding u) = Inr emb" by blast
  then show "\<exists>ms'. find_matches_for_embeddings cosine str_to_embedding
              (before @ (q, bx) # after) users threshold = Inr ms'"
    unfolding find_matches_for_embeddings_def by (rule find_matches_loop_total)
next
  show "find_matches_for_embeddings cosine str_to_embedding query_embeddings [] threshold
    = Inr []"
    unfolding find_matches_for_embeddings_def by (induction query_embeddings) auto
qed

text \<open>
  Claim C2, as amended. When every stored embedding decodes, each detected face is handled
  on its own: all candidates are scanned, the maximum similarity is taken with the first
  candidate that reaches it, and the face yields a match exactly when that maximum is at
  least the threshold and strictly positive; every other face is left out of the list, and
  the call returns normally.
\<close>

theorem find_matches_best_positive:
  assumes "\<forall>u\<in>set users. str_to_embedding (embedding u) = Inr (dec u)"
  shows "find_matches_for_embeddings cosine str_to_embedding query_embeddings users threshold =
     Inr (List.map_filter
       (\<lambda>(q, bx). positive_match_face
          (map (\<lambda>u. (u, compare_faces cosine q (Some (dec u)))) users)
          (case threshold of None \<Rightarrow> default_threshold | Some t \<Rightarrow> t) bx)
       query_embeddings)"
  unfolding find_matches_for_embeddings_def
  using find_matches_loop_map_filter [OF assms, of cosine query_embeddings _ "[]"]
  by simp

theorem find_matches_best_positive_witness:
  "find_matches_for_embeddings (\<lambda>a b. Inr (Fin (if a = b then 9 / 10 else 0)))
     (\<lambda>s. Inr (length s))
     [(Some (1::nat), 10::nat), (Some 5, 20)]
     [\<lparr>embedding = ''a''\<rparr>, \<lparr>embedding = ''b''\<rparr>, \<lparr>embedding = ''cc''\<rparr>] None
   = Inr [\<lparr>user = \<lparr>embedding = ''a''\<rparr>, similarity = Fin (9 / 10), bbox = 10\<rparr>]"
  using find_matches_best_positive [of
     "[\<lparr>embedding = ''a''\<rparr>, \<lparr>embedding = ''b''\<rparr>, \<lparr>embedding = ''cc''\<rparr>]"
     "\<lambda>s. Inr (length s)" "\<lambda>u. length (embedding u)"
     "\<lambda>a b. Inr (Fin (if a = b then 9 / 10 else 0))"
     "[(Some (1::nat), 10::nat), (Some 5, 20)]" None]
  by (simp add: List.map_filter_simps positive_match_face_def max_similarity_def
      first_with_similarity_def compare_faces_def default_threshold_def)

text \<open>
  Claim C2 as stated fails: one face, one candidate at similarity -0.5, threshold -1. The
  maximum similarity reaches the threshold, so the stated policy emits the candidate; the
  code returns the empty list, because -0.5 never exceeds the initial 0.0.
\<close>

theorem find_matches_threshold_counterexample:
  "compare_faces (\<lambda>a b. Inr (Fin (- 1 / 2))) (Some (1::nat)) (Some 2) = Fin (- 1 / 2)
   \<and> max_similarity [(\<lparr>embedding = ''[0, 1]''\<rparr>, Fin (- 1 / 2))] = Some (- 1 / 2)
   \<and> (- 1 :: real) \<le> - 1 / 2
   \<and> spec_match_face [(\<lparr>embedding = ''[0, 1]''\<rparr>, Fin (- 1 / 2))] (- 1) ()
       = Some \<lparr>user = \<lparr>embedding = ''[0, 1]''\<rparr>, similarity = Fin (- 1 / 2), bbox = ()\<rparr>
   \<and> find_matches_for_embeddings (\<lambda>a b. Inr (Fin (- 1 / 2))) (\<lambda>s. Inr 2)
         [(Some 1, ())] [\<lparr>embedding = ''[0, 1]''\<rparr>] (Some (- 1)) = Inr []"
  by (simp add: compare_faces_def max_similarity_def spec_match_face_def
      first_with_similarity_def find_matches_for_embeddings_def)

theorem find_matches_never_nonpositive_witness:
  "find_matches_for_embeddings (\<lambda>a b. Inr (Fin (if a = b then 9 / 10 else - 1 / 5)))
     (\<lambda>s. Inr (length s)) [(Some (1::nat), 10::nat)]
     [\<lparr>embedding = ''a''\<rparr>, \<lparr>embedding = ''cc''\<rparr>] (Some (- 1))
     = Inr [\<lparr>user = \<lparr>embedding = ''a''\<rparr>, similarity = Fin (9 / 10), bbox = 10\<rparr>]
   \<and> (0::real) < 9 / 10
   \<and> find_matches_for_embeddings (\<lambda>a b. Inr (Fin (if a = b then 9 / 10 else - 1 / 5)))
       (\<lambda>s. Inr (length s)) ([(Some 1, 10)] @ (Some 7, 30) # [(Some 2, 20)])
       [\<lparr>embedding = ''a''\<rparr>, \<lparr>embedding = ''cc''\<rparr>] (Some (- 1))
     = find_matches_for_embeddings (\<lambda>a b. Inr (Fin (if a = b then 9 / 10 else - 1 / 5)))
       (\<lambda>s. Inr (length s)) ([(Some 1, 10)] @ [(Some 2, 20)])
       [\<lparr>embedding = ''a''\<rparr>, \<lparr>embedding = ''cc''\<rparr>] (Some (- 1))
   \<and> find_matches_for_embeddings (\<lambda>a b. Inr (Fin (if a = b then 9 / 10 else - 1 / 5)))
       (\<lambda>s. Inr (length s)) ([(Some 1, 10)] @ (Some 7, 30) # [(Some 2, 20)])
       [\<lparr>embedding = ''a''\<rparr>, \<lparr>embedding = ''cc''\<rparr>] (Some (- 1))
     = Inr [\<lparr>user = \<lparr>embedding = ''a''\<rparr>, similarity = Fin (9 / 10), bbox = 10\<rparr>,
            \<lparr>user = \<lparr>embedding = ''cc''\<rparr>, similarity = Fin (9 / 10), bbox = 20\<rparr>]
   \<and> find_matches_for_embeddings (\<lambda>a b. Inr (Fin (if a = b then 9 / 10 else - 1 / 5)))
       (\<lambda>s. Inr (length s)) [(Some 1, 10)] ([] :: user list) (Some (- 1)) = Inr []"
  using find_matches_never_nonpositive [of
     "\<lambda>a b. Inr (Fin (if a = b then 9 / 10 else - 1 / 5))" "\<lambda>s. Inr (length s)"
     "[(Some (1::nat), 10::nat)]" "[\<lparr>embedding = ''a''\<rparr>, \<lparr>embedding = ''cc''\<rparr>]" "Some (- 1)"
     "[\<lparr>user = \<lparr>embedding = ''a''\<rparr>, similarity = Fin (9 / 10), bbox = 10\<rparr>]"
     "Some 7" "[(Some 1, 10)]" 30 "[(Some 2, 20)]"]
  by (simp add: compare_faces_def find_matches_for_embeddings_def)

section \<open>Properties of the employee cache\<close>

lemma get_cached_refresh:
  assumes "current_time - employee_cache_last_updated d > EMPLOYEE_CACHE_TTL
           \<or> employee_cache d = []"
    and "query (query_calls d) = Inr employees"
  shows "get_cached_employees query current_time d =
     (Inr (map snd (snapshot_of employees)),
      d\<lparr>employee_cache := snapshot_of employees,
        employee_cache_last_updated := current_time,
        query_calls := Suc (query_calls d)\<rparr>)"
  using assms by (auto simp: get_cached_employees_def Let_def)

lemma get_cached_hit:
  assumes "\<not> current_time - employee_cache_last_updated d > EMPLOYEE_CACHE_TTL"
    and "employee_cache d \<noteq> []"
  shows "get_cached_employees query current_time d = (Inr (map snd (employee_cache d)), d)"
  using assms by (simp add: get_cached_employees_def)

text \<open>
  Claim C4, as amended. A call made when more than 300 seconds have passed since the last
  refresh, or when the snapshot is empty, queries the store once; when the query returns, the
  snapshot is replaced by the fetched population, the timestamp is set to the time of the
  call and the new snapshot's values are returned. Any other call queries nothing and
  returns the values of the snapshot it found. Hence a second call made no more than 300
  seconds after the last refresh, on a snapshot that is not empty, makes no fetch and
  returns the same snapshot as the first.
\<close>

theorem get_cached_employees_ttl:
  "((current_time - employee_cache_last_updated d > EMPLOYEE_CACHE_TTL \<or> employee_cache d = [])
      \<and> query (query_calls d) = Inr employees
    \<longrightarrow> get_cached_employees query current_time d =
         (Inr (map snd (snapshot_of employees)),
          d\<lparr>employee_cache := snapshot_of employees,
            employee_cache_last_updated := current_time,
            query_calls := Suc (query_calls d)\<rparr>))
   \<and> (\<not> current_time - employee_cache_last_updated d > EMPLOYEE_CACHE_TTL
      \<and> employee_cache d \<noteq> []
    \<longrightarrow> get_cached_employees query current_time d = (Inr (map snd (employee_cache d)), d))
   \<and> (get_cached_employees query current_time d = (Inr snapshot, d1)
      \<and> employee_cache d1 \<noteq> []
      \<and> current_time \<le> later \<and> later - employee_cache_last_updated d1 \<le> EMPLOYEE_CACHE_TTL
    \<longrightarrow> get_cached_employees query' later d1 = (Inr snapshot, d1)
       \<and> query_calls (snd (get_cached_employees query' later d1)) = query_calls d1)"
proof (intro conjI impI)
  assume "(current_time - employee_cache_last_updated d > EMPLOYEE_CACHE_TTL
      \<or> employee_cache d = []) \<and> query (query_calls d) = Inr employees"
  then show "get_cached_employees query current_time d =
         (Inr (map snd (snapshot_of employees)),
          d\<lparr>employee_cache := snapshot_of employees,
            employee_cache_last_updated := current_time,
            query_calls := Suc (query_calls d)\<rparr>)"
    using get_cached_refresh [of current_time d query employees] by blast
next
  assume "\<not> current_time - employee_cache_last_updated d > EMPLOYEE_CACHE_TTL
      \<and> employee_cache d \<noteq> []"
  then show "get_cached_employees query current_time d = (Inr (map snd (employee_cache d)), d)"
    using get_cached_hit [of current_time d query] by blast
next
  assume h: "get_cached_employees query current_time d = (Inr snapshot, d1)
      \<and> employee_cache d1 \<noteq> []
      \<and> current_time \<le> later \<and> later - employee_cache_last_updated d1 \<le> EMPLOYEE_CACHE_TTL"
  then have first: "get_cached_employees query current_time d = (Inr snapshot, d1)" by blast
  have snap: "snapshot = map snd (employee_cache d1)"
    using first
    by (auto simp: get_cached_employees_def Let_def split: if_splits sum.splits)
  have hit: "get_cached_employees query' later d1 = (Inr (map snd (employee_cache d1)), d1)"
    using h by (intro get_cached_hit) auto
  show "get_cached_employees query' later d1 = (Inr snapshot, d1)"
    using hit snap by simp
  then show "query_calls (snd (get_cached_employees query' later d1)) = query_calls d1"
    by simp
qed

theorem get_cached_employees_ttl_witness:
  "get_cached_employees (\<lambda>n. Inr [\<lparr>objectId = ''e1''\<rparr>, \<lparr>objectId = ''e2''\<rparr>]) 1000 directory_init
     = (Inr [\<lparr>objectId = ''e1''\<rparr>, \<lparr>objectId = ''e2''\<rparr>],
        \<lparr>employee_cache = [(''e1'', \<lparr>objectId = ''e1''\<rparr>), (''e2'', \<lparr>objectId = ''e2''\<rparr>)],
         employee_cache_last_updated = 1000, query_calls = 1\<rparr>)
   \<and> get_cached_employees (\<lambda>n. Inr [\<lparr>objectId = ''e3''\<rparr>]) 1200
        \<lparr>employee_cache = [(''e1'', \<lparr>objectId = ''e1''\<rparr>), (''e2'', \<lparr>objectId = ''e2''\<rparr>)],
         employee_cache_last_updated = 1000, query_calls = 1\<rparr>
     = (Inr [\<lparr>objectId = ''e1''\<rparr>, \<lparr>objectId = ''e2''\<rparr>],
        \<lparr>employee_cache = [(''e1'', \<lparr>objectId = ''e1''\<rparr>), (''e2'', \<lparr>objectId = ''e2''\<rparr>)],
         employee_cache_last_updated = 1000, query_calls = 1\<rparr>)"
  using get_cached_employees_ttl [of 1000 directory_init
      "\<lambda>n. Inr [\<lparr>objectId = ''e1''\<rparr>, \<lparr>objectId = ''e2''\<rparr>]"
      "[\<lparr>objectId = ''e1''\<rparr>, \<lparr>objectId = ''e2''\<rparr>]"
      "[\<lparr>objectId = ''e1''\<rparr>, \<lparr>objectId = ''e2''\<rparr>]"
      "\<lparr>employee_cache = [(''e1'', \<lparr>objectId = ''e1''\<rparr>), (''e2'', \<lparr>objectId = ''e2''\<rparr>)],
         employee_cache_last_updated = 1000, query_calls = 1\<rparr>"
      1200 "\<lambda>n. Inr [\<lparr>objectId = ''e3''\<rparr>]"]
  by (simp add: directory_init_def EMPLOYEE_CACHE_TTL_def snapshot_of_def)

text \<open>
  Claim C4 as stated fails when the store holds no employee: the first call (at 1000)
  fetches the empty population, and the second call one second later, well inside the
  window of 300 seconds, finds the snapshot empty and queries the store again.
\<close>

theorem get_cached_employees_empty_counterexample:
  "get_cached_employees (\<lambda>n. Inr []) 1000 (directory_init :: unit directory)
     = (Inr [], \<lparr>employee_cache = [], employee_cache_last_updated = 1000, query_calls = 1\<rparr>)
   \<and> (1001 :: real) - 1000 \<le> EMPLOYEE_CACHE_TTL
   \<and> get_cached_employees (\<lambda>n. Inr []) 1001
        (\<lparr>employee_cache = [], employee_cache_last_updated = 1000, query_calls = 1\<rparr>
           :: unit directory)
     = (Inr [], \<lparr>employee_cache = [], employee_cache_last_updated = 1001, query_calls = 2\<rparr>)"
  by (simp add: get_cached_employees_def directory_init_def EMPLOYEE_CACHE_TTL_def
      snapshot_of_def)

text \<open>
  Claim C5. When the query of a refresh raises, the call raises the same exception, the
  snapshot and the timestamp are those from before the call, and a next call at any later
  time queries the store again.
\<close>

theorem get_cached_employees_fetch_raises:
  assumes "current_time - employee_cache_last_updated d > EMPLOYEE_CACHE_TTL
           \<or> employee_cache d = []"
    and "query (query_calls d) = Inl e"
    and "current_time \<le> later"
  shows "fst (get_cached_employees query current_time d) = Inl e
     \<and> employee_cache (snd (get_cached_employees query current_time d)) = employee_cache d
     \<and> employee_cache_last_updated (snd (get_cached_employees query current_time d))
         = employee_cache_last_updated d
     \<and> query_calls (snd (get_cached_employees query current_time d)) = Suc (query_calls d)
     \<and> query_calls (snd (get_cached_employees query' later
           (snd (get_cached_employees query current_time d)))) = Suc (Suc (query_calls d))"
proof -
  let ?d1 = "d\<lparr>query_calls := Suc (query_calls d)\<rparr>"
  have first: "get_cached_employees query current_time d = (Inl e, ?d1)"
    using assms(1,2) by (auto simp: get_cached_employees_def)
  have again: "later - employee_cache_last_updated ?d1 > EMPLOYEE_CACHE_TTL
      \<or> employee_cache ?d1 = []"
    using assms(1,3) by auto
  have "query_calls (snd (get_cached_employees query' later ?d1)) = Suc (Suc (query_calls d))"
    using again
    by (cases "query' (Suc (query_calls d))") (auto simp: get_cached_employees_def Let_def)
  then show ?thesis using first by simp
qed

theorem get_cached_employees_fetch_raises_witness:
  "fst (get_cached_employees (\<lambda>n. Inl (Exception ''store unreachable'')) 1000
        \<lparr>employee_cache = [(''e1'', \<lparr>objectId = ''e1''\<rparr>)],
         employee_cache_last_updated = 100, query_calls = 1\<rparr>)
     = Inl (Exception ''store unreachable'')
   \<and> snd (get_cached_employees (\<lambda>n. Inl (Exception ''store unreachable'')) 1000
        \<lparr>employee_cache = [(''e1'', \<lparr>objectId = ''e1''\<rparr>)],
         employee_cache_last_updated = 100, query_calls = 1\<rparr>)
     = \<lparr>employee_cache = [(''e1'', \<lparr>objectId = ''e1''\<rparr>)],
         employee_cache_last_updated = 100, query_calls = 2\<rparr>
   \<and> query_calls (snd (get_cached_employees (\<lambda>n. Inr []) 1000
        (snd (get_cached_employees (\<lambda>n. Inl (Exception ''store unreachable'')) 1000
        \<lparr>employee_cache = [(''e1'', \<lparr>objectId = ''e1''\<rparr>)],
         employee_cache_last_updated = 100, query_calls = 1\<rparr>)))) = 3"
  using get_cached_employees_fetch_raises [of 1000
      "\<lparr>employee_cache = [(''e1'', \<lparr>objectId = ''e1''\<rparr>)],
         employee_cache_last_updated = 100, query_calls = 1\<rparr>"
      "\<lambda>n. Inl (Exception ''store unreachable'')" "Exception ''store unreachable''" 1000
      "\<lambda>n. Inr []"]
  by (simp add: EMPLOYEE_CACHE_TTL_def get_cached_employees_def snapshot_of_def)

section \<open>Properties of the relay queues\<close>

lemma queue_apply_bounded:
  "0 < maxsize q \<Longrightarrow> int (length (queue_items q)) \<le> maxsize q \<Longrightarrow>
   maxsize (queue_apply op q) = maxsize q
   \<and> int (length (queue_items (queue_apply op q))) \<le> maxsize q"
proof (cases op)
  case (Put x)
  then show "0 < maxsize q \<Longrightarrow> int (length (queue_items q)) \<le> maxsize q \<Longrightarrow> ?thesis"
    by (auto simp: queue_put_def queue_full_def)
next
  case Get
  then show "0 < maxsize q \<Longrightarrow> int (length (queue_items q)) \<le> maxsize q \<Longrightarrow> ?thesis"
    by (cases "queue_items q") (auto simp: queue_get_def)
qed

lemma queue_fold_bounded:
  "0 < maxsize q \<Longrightarrow> int (length (queue_items q)) \<le> maxsize q \<Longrightarrow>
   maxsize (fold queue_apply ops q) = maxsize q
   \<and> int (length (queue_items (fold queue_apply ops q))) \<le> maxsize q"
proof (induction ops arbitrary: q)
  case Nil
  then show ?case by simp
next
  case (Cons op ops)
  from queue_apply_bounded [OF Cons.prems, of op]
  have step: "maxsize (queue_apply op q) = maxsize q"
    "int (length (queue_items (queue_apply op q))) \<le> maxsize (queue_apply op q)" by simp_all
  from Cons.prems(1) step(1) have pos: "0 < maxsize (queue_apply op q)" by simp
  from Cons.IH [OF pos step(2)] step(1) show ?case by simp
qed

text \<open>
  Claim C7. Both queues are created with capacity 100. Whatever producers and consumers
  do, neither ever holds more than 100 items: a put on a queue that holds 100 items waits
  and leaves the queue as it is, and once one item has been taken the put is accepted.
\<close>

theorem relay_queues_bounded:
  "maxsize (processing_results_queue_init :: 'a py_queue) = 100
   \<and> maxsize (websocket_responses_queue_init :: 'a py_queue) = 100
   \<and> length (queue_items (fold queue_apply ops (processing_results_queue_init :: 'a py_queue)))
       \<le> 100
   \<and> length (queue_items (fold queue_apply ops (websocket_responses_queue_init :: 'a py_queue)))
       \<le> 100
   \<and> (maxsize q = 100 \<and> length (queue_items q) = 100
      \<longrightarrow> queue_put x q = None
        \<and> queue_apply (Put x) q = q
        \<and> (\<exists>y q'. queue_get q = Some (y, q') \<and> length (queue_items q') = 99
             \<and> queue_put x q' = Some (q'\<lparr>queue_items := queue_items q' @ [x]\<rparr>)))"
proof (intro conjI impI)
  show "maxsize (processing_results_queue_init :: 'a py_queue) = 100"
    by (simp add: processing_results_queue_init_def Queue_def)
  show "maxsize (websocket_responses_queue_init :: 'a py_queue) = 100"
    by (simp add: websocket_responses_queue_init_def Queue_def)
  have init: "0 < maxsize (Queue 100 :: 'a py_queue)"
    "int (length (queue_items (Queue 100 :: 'a py_queue))) \<le> maxsize (Queue 100 :: 'a py_queue)"
    by (simp_all add: Queue_def)
  have "int (length (queue_items (fold queue_apply ops (Queue 100 :: 'a py_queue)))) \<le> 100"
    using queue_fold_bounded [OF init, of ops] by (simp add: Queue_def)
  then show "length (queue_items (fold queue_apply ops
       (processing_results_queue_init :: 'a py_queue))) \<le> 100"
    and "length (queue_items (fold queue_apply ops
       (websocket_responses_queue_init :: 'a py_queue))) \<le> 100"
    by (simp_all add: processing_results_queue_init_def websocket_responses_queue_init_def)
next
  assume full: "maxsize q = 100 \<and> length (queue_items q) = 100"
  then show put: "queue_put x q = None" by (simp add: queue_put_def queue_full_def)
  then show "queue_apply (Put x) q = q" by simp
  from full obtain y ys where ys: "queue_items q = y # ys" by (cases "queue_items q") auto
  with full have "length ys = 99" by simp
  then show "\<exists>y q'. queue_get q = Some (y, q') \<and> length (queue_items q') = 99
             \<and> queue_put x q' = Some (q'\<lparr>queue_items := queue_items q' @ [x]\<rparr>)"
    using ys full by (simp add: queue_get_def queue_put_def queue_full_def)
qed

theorem relay_queues_bounded_witness:
  "length (queue_items (fold queue_apply [Put (1::nat), Put 2, Get, Put 3]
       processing_results_queue_init)) = 2
   \<and> queue_put (7::nat) \<lparr>maxsize = 100, queue_items = replicate 100 0\<rparr> = None
   \<and> queue_get \<lparr>maxsize = 100, queue_items = replicate 100 (0::nat)\<rparr>
       = Some (0, \<lparr>maxsize = 100, queue_items = replicate 99 0\<rparr>)
   \<and> queue_put (7::nat) \<lparr>maxsize = 100, queue_items = replicate 99 0\<rparr>
       = Some \<lparr>maxsize = 100, queue_items = replicate 99 0 @ [7]\<rparr>"
  using relay_queues_bounded [of "[Put (1::nat), Put 2, Get, Put 3]"
      "\<lparr>maxsize = 100, queue_items = replicate 100 (0::nat)\<rparr>" 7]
  by (simp add: processing_results_queue_init_def Queue_def queue_put_def queue_get_def
      queue_full_def numeral_eq_Suc)

section \<open>Properties of delivery and broadcast\<close>

lemma gather_sends_char:
  "gather_sends send_json conns message w =
     (map (\<lambda>(client_id, websocket). Inr (send_json websocket message = None)) conns,
      w\<lparr>sent := sent w @ map (\<lambda>(client_id, websocket). (websocket, message))
                         (filter (\<lambda>(client_id, websocket). send_json websocket message = None)
                            conns)\<rparr>)"
proof (induction conns arbitrary: w)
  case Nil
  show ?case by simp
next
  case (Cons c conns)
  obtain client_id websocket where c: "c = (client_id, websocket)" by (cases c)
  show ?case
  proof (cases "send_json websocket message")
    case None
    then show ?thesis unfolding c
      by (simp add: send_message_to_client_def Cons.IH)
  next
    case (Some e)
    then show ?thesis unfolding c
      by (simp add: send_message_to_client_def Cons.IH)
  qed
qed

text \<open>
  Claim C6. What the program broadcasts is the list of updates that
  \<^verbatim>\<open>handle_future_completion\<close> puts on the event queue (lines 244-248) and that line 200
  passes on directly. On a list, \<^verbatim>\<open>attendance_data.get\<close> (line 35) raises as soon as one
  connection is registered: nothing is sent and nobody is evicted, whatever the
  connections do. With three connections of which the second fails, the event consumer
  ends its iteration in the \<^verbatim>\<open>except\<close> clause with the registry untouched.

  For an event that is a dictionary the sends are made, and lines 58-59 then pair the
  results with the keys of the registry as it is after the wait. With the registry
  unchanged the failed connection, and only it, is removed. When the first client has
  disconnected in the meantime, the results are paired with the wrong keys: the third
  connection, whose delivery succeeded, is removed and the second, whose delivery failed,
  stays. When a client has connected in the meantime, \<^verbatim>\<open>results[i]\<close> raises
  \<^verbatim>\<open>IndexError\<close> and no failed connection is removed.
\<close>

theorem broadcast_fails_on_update_list:
  "broadcast_attendance_update send_json meanwhile (PList updates)
     (w\<lparr>active_connections := conn # conns\<rparr>)
   = (Some (AttributeError (quoted ''list'' @ '' object has no attribute '' @ quoted ''get'')),
      w\<lparr>active_connections := conn # conns\<rparr>)
   \<and> (let send_json = (\<lambda>websocket message.
                          if websocket = (2::nat) then Some (Exception ''closed'') else None);
           unchanged = (\<lambda>registry. registry) :: (string \<times> nat) list \<Rightarrow> (string \<times> nat) list;
           registry = [(''c1'', 1), (''c2'', 2), (''c3'', 3)];
           w0 = (world_init :: (nat, nat) world)\<lparr>active_connections := registry\<rparr>;
           event = PDict [(''action'', PStr ''create''), (''employee_id'', PStr ''emp-1'')];
           work = Returned (PList [PList [PDict [(''name'', PStr ''Ann'')]],
                                   PList [PDict [(''attendance_id'', PStr ''x1'')]],
                                   PList [], PInt 0])
       in (\<exists>w1. handle_future_completion work ''c1'' w0 = Some (None, w1)
              \<and> queue_items (processing_results_queue w1)
                  = [PDict [(''type'', PStr ''attendance_update''),
                            (''data'', PList [PDict [(''attendance_id'', PStr ''x1''),
                                                     (''objectId'', PStr ''x1'')]])]]
              \<and> fst (process_queue_body send_json unchanged w1)
                  = Raises (AttributeError
                              (quoted ''list'' @ '' object has no attribute '' @ quoted ''get''))
              \<and> sent (snd (process_queue_body send_json unchanged w1)) = []
              \<and> active_connections (snd (process_queue_body send_json unchanged w1)) = registry)
          \<and> broadcast_attendance_update send_json unchanged event w0
              = (None,
                 w0\<lparr>active_connections := [(''c1'', 1), (''c3'', 3)],
                    sent := [(1, attendance_update_message event),
                             (3, attendance_update_message event)]\<rparr>)
          \<and> broadcast_attendance_update send_json (remove_client ''c1'') event w0
              = (None,
                 w0\<lparr>active_connections := [(''c2'', 2)],
                    sent := [(1, attendance_update_message event),
                             (3, attendance_update_message event)]\<rparr>)
          \<and> broadcast_attendance_update send_json (\<lambda>registry. registry @ [(''c4'', 4)]) event w0
              = (Some (IndexError ''list index out of range''),
                 w0\<lparr>active_connections := [(''c1'', 1), (''c2'', 2), (''c3'', 3), (''c4'', 4)],
                    sent := [(1, attendance_update_message event),
                             (3, attendance_update_message event)]\<rparr>))"
proof (intro conjI)
  show "broadcast_attendance_update send_json meanwhile (PList updates)
     (w\<lparr>active_connections := conn # conns\<rparr>)
   = (Some (AttributeError (quoted ''list'' @ '' object has no attribute '' @ quoted ''get'')),
      w\<lparr>active_connections := conn # conns\<rparr>)"
    by (simp add: broadcast_attendance_update_def)
  show "let send_json = (\<lambda>websocket message.
                          if websocket = (2::nat) then Some (Exception ''closed'') else None);
           unchanged = (\<lambda>registry. registry) :: (string \<times> nat) list \<Rightarrow> (string \<times> nat) list;
           registry = [(''c1'', 1), (''c2'', 2), (''c3'', 3)];
           w0 = (world_init :: (nat, nat) world)\<lparr>active_connections := registry\<rparr>;
           event = PDict [(''action'', PStr ''create''), (''employee_id'', PStr ''emp-1'')];
           work = Returned (PList [PList [PDict [(''name'', PStr ''Ann'')]],
                                   PList [PDict [(''attendance_id'', PStr ''x1'')]],
                                   PList [], PInt 0])
       in (\<exists>w1. handle_future_completion work ''c1'' w0 = Some (None, w1)
              \<and> queue_items (processing_results_queue w1)
                  = [PDict [(''type'', PStr ''attendance_update''),
                            (''data'', PList [PDict [(''attendance_id'', PStr ''x1''),
                                                     (''objectId'', PStr ''x1'')]])]]
              \<and> fst (process_queue_body send_json unchanged w1)
                  = Raises (AttributeError
                              (quoted ''list'' @ '' object has no attribute '' @ quoted ''get''))
              \<and> sent (snd (process_queue_body send_json unchanged w1)) = []
              \<and> active_connections (snd (process_queue_body send_json unchanged w1)) = registry)
          \<and> broadcast_attendance_update send_json unchanged event w0
              = (None,
                 w0\<lparr>active_connections := [(''c1'', 1), (''c3'', 3)],
                    sent := [(1, attendance_update_message event),
                             (3, attendance_update_message event)]\<rparr>)
          \<and> broadcast_attendance_update send_json (remove_client ''c1'') event w0
              = (None,
                 w0\<lparr>active_connections := [(''c2'', 2)],
                    sent := [(1, attendance_update_message event),
                             (3, attendance_update_message event)]\<rparr>)
          \<and> broadcast_attendance_update send_json (\<lambda>registry. registry @ [(''c4'', 4)]) event w0
              = (Some (IndexError ''list index out of range''),
                 w0\<lparr>active_connections := [(''c1'', 1), (''c2'', 2), (''c3'', 3), (''c4'', 4)],
                    sent := [(1, attendance_update_message event),
                             (3, attendance_update_message event)]\<rparr>)"
    by (simp add: Let_def world_init_def handle_future_completion_def put_results_def
          finally_clause_def unpack_result_def patch_attendance_updates_def patch_update_def
          copy_key_def decrement_pending_def queue_put_def queue_full_def queue_get_def
          process_queue_body_def broadcast_attendance_update_def send_message_to_client_def
          attendance_update_message_def remove_client_def dict_has_def dict_del_def
          Queue_def processing_results_queue_init_def websocket_responses_queue_init_def)
qed

section \<open>Properties of the consumer loops\<close>

lemma send_message_frame:
  assumes "send_message_to_client send_json websocket message w = (ok, w1)"
  shows "log w1 = log w
       \<and> processing_results_queue w1 = processing_results_queue w
       \<and> websocket_responses_queue w1 = websocket_responses_queue w"
  using assms by (auto simp: send_message_to_client_def split: option.splits)

lemma send_notification_frame:
  assumes "send_notification send_json websocket text kind w = (ok, w1)"
  shows "log w1 = log w
       \<and> processing_results_queue w1 = processing_results_queue w
       \<and> websocket_responses_queue w1 = websocket_responses_queue w"
  using assms unfolding send_notification_def by (rule send_message_frame)

lemma broadcast_frame:
  assumes "broadcast_attendance_update send_json meanwhile data w = (r, w1)"
  shows "log w1 = log w
       \<and> processing_results_queue w1 = processing_results_queue w
       \<and> websocket_responses_queue w1 = websocket_responses_queue w"
  using assms unfolding broadcast_attendance_update_def Let_def gather_sends_char
  by (auto split: if_splits sum.splits)

lemma respond_frame:
  "log (respond send_json websocket client_id status text kind w) = log w
   \<and> processing_results_queue (respond send_json websocket client_id status text kind w)
       = processing_results_queue w
   \<and> websocket_responses_queue (respond send_json websocket client_id status text kind w)
       = websocket_responses_queue w"
proof -
  obtain ok w1 where s: "send_message_to_client send_json websocket status w = (ok, w1)"
    by (cases "send_message_to_client send_json websocket status w")
  obtain ok' w2 where n: "send_notification send_json websocket text kind w1 = (ok', w2)"
    by (cases "send_notification send_json websocket text kind w1")
  show ?thesis
    using send_message_frame [OF s] send_notification_frame [OF n]
    by (simp add: respond_def s n)
qed

lemma respond_users_frame:
  assumes "respond_users fmt send_json meanwhile websocket client_id processed_users attendance_updates w
           = (f, w')"
  shows "log w' = log w
       \<and> processing_results_queue w' = processing_results_queue w
       \<and> websocket_responses_queue w' = websocket_responses_queue w"
proof -
  obtain ok w1 where s: "send_message_to_client send_json websocket
      (PDict [(''multiple_users'', PBool True), (''users'', processed_users)]) w = (ok, w1)"
    by (cases "send_message_to_client send_json websocket
      (PDict [(''multiple_users'', PBool True), (''users'', processed_users)]) w")
  note f1 = send_message_frame [OF s]
  show ?thesis
  proof (cases "summary_text fmt processed_users")
    case (Inl e)
    then show ?thesis using assms f1 by (simp add: respond_users_def s)
  next
    case (Inr msg)
    obtain ok' w2 where n: "send_notification send_json websocket msg ''success'' w1 = (ok', w2)"
      by (cases "send_notification send_json websocket msg ''success'' w1")
    note f2 = send_notification_frame [OF n]
    define w3 where "w3 = (if \<not> ok
                        then w2\<lparr>active_connections :=
                                  remove_client client_id (active_connections w2)\<rparr>
                        else w2)"
    have f3: "log w3 = log w \<and> processing_results_queue w3 = processing_results_queue w
       \<and> websocket_responses_queue w3 = websocket_responses_queue w"
      using f1 f2 by (simp add: w3_def)
    show ?thesis
    proof (cases "py_truthy attendance_updates")
      case False
      then have "w' = w3" using assms Inr by (simp add: respond_users_def s n Let_def w3_def)
      then show ?thesis using f3 by simp
    next
      case True
      obtain r w4 where b: "broadcast_attendance_update send_json meanwhile attendance_updates w3 = (r, w4)"
        by (cases "broadcast_attendance_update send_json meanwhile attendance_updates w3")
      have "w' = w4" using assms Inr True b
        by (cases r) (simp_all add: respond_users_def s n Let_def w3_def [symmetric])
      then show ?thesis using broadcast_frame [OF b] f3 by simp
    qed
  qed
qed

lemma respond_result_frame:
  assumes "respond_result fmt send_json meanwhile websocket client_id item w = (f, w')"
  shows "log w' = log w
       \<and> processing_results_queue w' = processing_results_queue w
       \<and> websocket_responses_queue w' = websocket_responses_queue w"
  using assms unfolding respond_result_def
  by (auto split: sum.splits if_splits simp: respond_frame dest: respond_users_frame)

lemma queue_get_NoneD: "queue_get q = None \<Longrightarrow> queue_items q = []"
  by (auto simp: queue_get_def split: list.splits)

lemma queue_get_SomeD:
  "queue_get q = Some (x, q') \<Longrightarrow> queue_items q' = drop (Suc 0) (queue_items q)"
  by (auto simp: queue_get_def split: list.splits)

lemma process_queue_body_frame:
  assumes "process_queue_body send_json meanwhile w = (f, w')"
  shows "log w' = log w"
    and "queue_items (processing_results_queue w')
         = drop 1 (queue_items (processing_results_queue w))"
    and "websocket_responses_queue w' = websocket_responses_queue w"
    and "f \<noteq> Continue"
  using assms unfolding process_queue_body_def Let_def
  by (auto split: option.splits sum.splits if_splits prod.splits
           dest: queue_get_NoneD queue_get_SomeD dest!: broadcast_frame)

lemma process_websocket_responses_body_frame:
  assumes "process_websocket_responses_body fmt send_json meanwhile w = (f, w')"
  shows "log w' = log w"
    and "queue_items (websocket_responses_queue w')
         = drop 1 (queue_items (websocket_responses_queue w))"
    and "processing_results_queue w' = processing_results_queue w"
  using assms unfolding process_websocket_responses_body_def Let_def
  by (auto split: option.splits sum.splits if_splits prod.splits
           simp: respond_frame dest: queue_get_NoneD queue_get_SomeD
           dest!: respond_result_frame)

lemma end_iteration_cases:
  assumes "end_iteration prefix (f, w) = (d, w')"
  shows "(f = Fallthrough \<and> d = 1 / 10 \<and> w' = w)
       \<or> (f = Continue \<and> d = 0 \<and> w' = w)
       \<or> (\<exists>e. f = Raises e \<and> d = 1 \<and> w' = w\<lparr>log := log w @ [prefix @ str_of_exn e]\<rparr>)"
  using assms by (cases f) auto

lemma process_queue_iteration_frame:
  assumes "process_queue_iteration send_json meanwhile w = (d, w')"
  shows "queue_items (processing_results_queue w')
         = drop 1 (queue_items (processing_results_queue w))"
    and "d = 1 / 10 \<or> d = 1"
    and "length (log w') = length (log w) + (if d = 1 then 1 else 0)"
proof -
  obtain f w1 where b: "process_queue_body send_json meanwhile w = (f, w1)"
    by (cases "process_queue_body send_json meanwhile w")
  note fr = process_queue_body_frame [OF b]
  have e: "end_iteration ''Error processing queue: '' (f, w1) = (d, w')"
    using assms by (simp add: process_queue_iteration_def b)
  show "queue_items (processing_results_queue w')
         = drop 1 (queue_items (processing_results_queue w))"
    using end_iteration_cases [OF e] fr by auto
  show "d = 1 / 10 \<or> d = 1" using end_iteration_cases [OF e] fr by auto
  show "length (log w') = length (log w) + (if d = 1 then 1 else 0)"
    using end_iteration_cases [OF e] fr by auto
qed

lemma process_websocket_responses_iteration_frame:
  assumes "process_websocket_responses_iteration fmt send_json meanwhile w = (d, w')"
  shows "queue_items (websocket_responses_queue w')
         = drop 1 (queue_items (websocket_responses_queue w))"
    and "d = 0 \<or> d = 1 / 10 \<or> d = 1"
    and "length (log w') = length (log w) + (if d = 1 then 1 else 0)"
    and "processing_results_queue w' = processing_results_queue w"
proof -
  obtain f w1 where b: "process_websocket_responses_body fmt send_json meanwhile w = (f, w1)"
    by (cases "process_websocket_responses_body fmt send_json meanwhile w")
  note fr = process_websocket_responses_body_frame [OF b]
  have e: "end_iteration ''Error processing websocket responses: '' (f, w1) = (d, w')"
    using assms by (simp add: process_websocket_responses_iteration_def b)
  show "queue_items (websocket_responses_queue w')
         = drop 1 (queue_items (websocket_responses_queue w))"
    using end_iteration_cases [OF e] fr by auto
  show "d = 0 \<or> d = 1 / 10 \<or> d = 1" using end_iteration_cases [OF e] by auto
  show "length (log w') = length (log w) + (if d = 1 then 1 else 0)"
    using end_iteration_cases [OF e] fr by auto
  show "processing_results_queue w' = processing_results_queue w"
    using end_iteration_cases [OF e] fr by auto
qed

lemma process_queue_run:
  assumes "process_queue n send_json meanwhile w = (ds, w')"
  shows "length ds = n
       \<and> queue_items (processing_results_queue w')
           = drop n (queue_items (processing_results_queue w))
       \<and> set ds \<subseteq> {1 / 10, 1}
       \<and> length (log w') = length (log w) + length (filter (\<lambda>d. d = 1) ds)"
  using assms
proof (induction n arbitrary: w ds w')
  case 0
  then show ?case by simp
next
  case (Suc n)
  obtain d w1 where i: "process_queue_iteration send_json meanwhile w = (d, w1)"
    by (cases "process_queue_iteration send_json meanwhile w")
  obtain ds1 w2 where r: "process_queue n send_json meanwhile w1 = (ds1, w2)"
    by (cases "process_queue n send_json meanwhile w1")
  have ds: "ds = d # ds1" and w': "w' = w2" using Suc.prems by (simp_all add: i r)
  note fi = process_queue_iteration_frame [OF i]
  note fr = Suc.IH [OF r]
  have "drop n (drop 1 (queue_items (processing_results_queue w)))
        = drop (Suc n) (queue_items (processing_results_queue w))" by simp
  then show ?case using fi fr unfolding ds w' by auto
qed

lemma process_websocket_responses_run:
  assumes "process_websocket_responses n fmt send_json meanwhile w = (ds, w')"
  shows "length ds = n
       \<and> queue_items (websocket_responses_queue w')
           = drop n (queue_items (websocket_responses_queue w))
       \<and> set ds \<subseteq> {0, 1 / 10, 1}
       \<and> length (log w') = length (log w) + length (filter (\<lambda>d. d = 1) ds)
       \<and> processing_results_queue w' = processing_results_queue w"
  using assms
proof (induction n arbitrary: w ds w')
  case 0
  then show ?case by simp
next
  case (Suc n)
  obtain d w1 where i: "process_websocket_responses_iteration fmt send_json meanwhile w = (d, w1)"
    by (cases "process_websocket_responses_iteration fmt send_json meanwhile w")
  obtain ds1 w2 where r: "process_websocket_responses n fmt send_json meanwhile w1 = (ds1, w2)"
    by (cases "process_websocket_responses n fmt send_json meanwhile w1")
  have ds: "ds = d # ds1" and w': "w' = w2" using Suc.prems by (simp_all add: i r)
  note fi = process_websocket_responses_iteration_frame [OF i]
  note fr = Suc.IH [OF r]
  have "drop n (drop 1 (queue_items (websocket_responses_queue w)))
        = drop (Suc n) (queue_items (websocket_responses_queue w))" by simp
  then show ?case using fi fr unfolding ds w' by auto
qed

text \<open>
  Claim C8. No error raised while an item is processed ends either consumer loop. Both
  loops perform every one of any number \<open>n\<close> of iterations, each iteration takes the next
  item off its queue whether or not the one before it failed, and the number of error
  lines logged is the number of one-second sleeps. An iteration sleeps one second exactly
  when an exception left the body of its \<^verbatim>\<open>try\<close> block, and then the exception is logged
  with the prefix of the loop; otherwise the event consumer sleeps 100 milliseconds, and the
  response consumer sleeps 100 milliseconds or, after a \<^verbatim>\<open>continue\<close>, not at all.
\<close>

theorem consumer_loops_continue_after_errors:
  "length (fst (process_queue n send_json meanwhile w)) = n
   \<and> queue_items (processing_results_queue (snd (process_queue n send_json meanwhile w)))
       = drop n (queue_items (processing_results_queue w))
   \<and> set (fst (process_queue n send_json meanwhile w)) \<subseteq> {1 / 10, 1}
   \<and> length (log (snd (process_queue n send_json meanwhile w)))
       = length (log w) + length (filter (\<lambda>d. d = 1) (fst (process_queue n send_json meanwhile w)))
   \<and> ((fst (process_queue_iteration send_json meanwhile w) = 1)
       = (\<exists>e. fst (process_queue_body send_json meanwhile w) = Raises e))
   \<and> (process_queue_body send_json meanwhile w = (Raises e, w1)
      \<longrightarrow> process_queue_iteration send_json meanwhile w
            = (1, w1\<lparr>log := log w @ [''Error processing queue: '' @ str_of_exn e]\<rparr>))
   \<and> length (fst (process_websocket_responses m fmt send_json meanwhile v)) = m
   \<and> queue_items (websocket_responses_queue (snd (process_websocket_responses m fmt send_json meanwhile v)))
       = drop m (queue_items (websocket_responses_queue v))
   \<and> set (fst (process_websocket_responses m fmt send_json meanwhile v)) \<subseteq> {0, 1 / 10, 1}
   \<and> length (log (snd (process_websocket_responses m fmt send_json meanwhile v)))
       = length (log v)
         + length (filter (\<lambda>d. d = 1) (fst (process_websocket_responses m fmt send_json meanwhile v)))
   \<and> ((fst (process_websocket_responses_iteration fmt send_json meanwhile v) = 1)
       = (\<exists>e. fst (process_websocket_responses_body fmt send_json meanwhile v) = Raises e))
   \<and> (process_websocket_responses_body fmt send_json meanwhile v = (Raises e', v1)
      \<longrightarrow> process_websocket_responses_iteration fmt send_json meanwhile v
            = (1, v1\<lparr>log := log v
                          @ [''Error processing websocket responses: '' @ str_of_exn e']\<rparr>))"
proof -
  obtain ds w' where q: "process_queue n send_json meanwhile w = (ds, w')"
    by (cases "process_queue n send_json meanwhile w")
  obtain f wb where qb: "process_queue_body send_json meanwhile w = (f, wb)"
    by (cases "process_queue_body send_json meanwhile w")
  obtain rs v' where r: "process_websocket_responses m fmt send_json meanwhile v = (rs, v')"
    by (cases "process_websocket_responses m fmt send_json meanwhile v")
  obtain g vb where rb: "process_websocket_responses_body fmt send_json meanwhile v = (g, vb)"
    by (cases "process_websocket_responses_body fmt send_json meanwhile v")
  have q5: "(fst (process_queue_iteration send_json meanwhile w) = 1)
       = (\<exists>e. fst (process_queue_body send_json meanwhile w) = Raises e)"
    by (cases f) (simp_all add: process_queue_iteration_def qb)
  have q6: "process_queue_body send_json meanwhile w = (Raises e, w1)
      \<longrightarrow> process_queue_iteration send_json meanwhile w
            = (1, w1\<lparr>log := log w @ [''Error processing queue: '' @ str_of_exn e]\<rparr>)"
    using process_queue_body_frame(1) [of send_json meanwhile w "Raises e" w1]
    by (simp add: process_queue_iteration_def)
  have r5: "(fst (process_websocket_responses_iteration fmt send_json meanwhile v) = 1)
       = (\<exists>e. fst (process_websocket_responses_body fmt send_json meanwhile v) = Raises e)"
    by (cases g) (simp_all add: process_websocket_responses_iteration_def rb)
  have r6: "process_websocket_responses_body fmt send_json meanwhile v = (Raises e', v1)
      \<longrightarrow> process_websocket_responses_iteration fmt send_json meanwhile v
            = (1, v1\<lparr>log := log v
                          @ [''Error processing websocket responses: '' @ str_of_exn e']\<rparr>)"
    using process_websocket_responses_body_frame(1) [of fmt send_json meanwhile v "Raises e'" v1]
    by (simp add: process_websocket_responses_iteration_def)
  show ?thesis
    using process_queue_run [OF q] process_websocket_responses_run [OF r] q5 q6 r5 r6
    by (simp only: q r fst_conv snd_conv)
qed

theorem consumer_loops_continue_after_errors_witness:
  "let send_json = (\<lambda>websocket message. None) :: nat \<Rightarrow> pyval \<Rightarrow> exn option;
       meanwhile = (\<lambda>registry. registry) :: (string \<times> nat) list \<Rightarrow> (string \<times> nat) list;
       good = PDict [(''type'', PStr ''attendance_update''),
                     (''data'', PDict [(''action'', PStr ''create'')])];
       w = (world_init :: (nat, nat) world)
             \<lparr>active_connections := [(''c1'', 1)],
              processing_results_queue :=
                \<lparr>maxsize = 100,
                 queue_items =
                   [PDict [(''type'', PStr ''attendance_update''),
                           (''data'', PList [PDict [(''action'', PStr ''create'')]])],
                    good]\<rparr>\<rparr>;
       e = AttributeError (quoted ''list'' @ '' object has no attribute '' @ quoted ''get'');
       w1 = w\<lparr>processing_results_queue := \<lparr>maxsize = 100, queue_items = [good]\<rparr>\<rparr>;
       answer = PDict [(''client_id'', PStr ''c1''), (''error'', PStr ''boom'')];
       v = (world_init :: (nat, nat) world)
             \<lparr>active_connections := [(''c1'', 1)],
              websocket_responses_queue :=
                \<lparr>maxsize = 100,
                 queue_items = [PDict [(''processed_users'', PList [])], answer]\<rparr>\<rparr>;
       e' = KeyError (quoted ''client_id'');
       v1 = v\<lparr>websocket_responses_queue := \<lparr>maxsize = 100, queue_items = [answer]\<rparr>\<rparr>
   in process_queue_body send_json meanwhile w = (Raises e, w1)
      \<and> process_queue_iteration send_json meanwhile w
          = (1, w1\<lparr>log := [''Error processing queue: '' @ str_of_exn e]\<rparr>)
      \<and> fst (process_queue 3 send_json meanwhile w) = [1, 1 / 10, 1 / 10]
      \<and> queue_items (processing_results_queue (snd (process_queue 3 send_json meanwhile w))) = []
      \<and> sent (snd (process_queue 3 send_json meanwhile w))
          = [(1, attendance_update_message (PDict [(''action'', PStr ''create'')]))]
      \<and> process_websocket_responses_body (\<lambda>x. ''?'') send_json meanwhile v = (Raises e', v1)
      \<and> process_websocket_responses_iteration (\<lambda>x. ''?'') send_json meanwhile v
          = (1, v1\<lparr>log := [''Error processing websocket responses: '' @ str_of_exn e']\<rparr>)
      \<and> fst (process_websocket_responses 3 (\<lambda>x. ''?'') send_json meanwhile v) = [1, 0, 1 / 10]
      \<and> map snd (sent (snd (process_websocket_responses 3 (\<lambda>x. ''?'') send_json meanwhile v)))
          = [PDict [(''status'', PStr ''processing_error''), (''message'', PStr ''boom'')],
             PDict [(''type'', PStr ''notification''), (''notification_type'', PStr ''error''),
                    (''message'', PStr ''Error processing: boom'')]]"
  using consumer_loops_continue_after_errors
    [of 3 "\<lambda>websocket message. None" "\<lambda>registry. registry"
        "(world_init :: (nat, nat) world)
             \<lparr>active_connections := [(''c1'', 1)],
              processing_results_queue :=
                \<lparr>maxsize = 100,
                 queue_items =
                   [PDict [(''type'', PStr ''attendance_update''),
                           (''data'', PList [PDict [(''action'', PStr ''create'')]])],
                    PDict [(''type'', PStr ''attendance_update''),
                           (''data'', PDict [(''action'', PStr ''create'')])]]\<rparr>\<rparr>"
        "AttributeError (quoted ''list'' @ '' object has no attribute '' @ quoted ''get'')"
        "(world_init :: (nat, nat) world)
             \<lparr>active_connections := [(''c1'', 1)],
              processing_results_queue :=
                \<lparr>maxsize = 100,
                 queue_items =
                   [PDict [(''type'', PStr ''attendance_update''),
                           (''data'', PDict [(''action'', PStr ''create'')])]]\<rparr>\<rparr>"
        3 "\<lambda>x. ''?''"
        "(world_init :: (nat, nat) world)
             \<lparr>active_connections := [(''c1'', 1)],
              websocket_responses_queue :=
                \<lparr>maxsize = 100,
                 queue_items = [PDict [(''processed_users'', PList [])],
                                PDict [(''client_id'', PStr ''c1''),
                                       (''error'', PStr ''boom'')]]\<rparr>\<rparr>"
        "KeyError (quoted ''client_id'')"
        "(world_init :: (nat, nat) world)
             \<lparr>active_connections := [(''c1'', 1)],
              websocket_responses_queue :=
                \<lparr>maxsize = 100,
                 queue_items = [PDict [(''client_id'', PStr ''c1''),
                                       (''error'', PStr ''boom'')]]\<rparr>\<rparr>"]
  by (simp add: Let_def world_init_def numeral_3_eq_3
        process_queue_iteration_def process_queue_body_def
        process_websocket_responses_iteration_def process_websocket_responses_body_def
        broadcast_attendance_update_def respond_def send_notification_def
        send_message_to_client_def attendance_update_message_def remove_client_def
        queue_get_def dict_has_def quoted_def
        processing_results_queue_init_def websocket_responses_queue_init_def Queue_def)

section \<open>Properties of the response consumer\<close>

text \<open>
  Claim C3. The response consumer forwards nothing to the event queue: no iteration, and
  no number of iterations, changes \<^verbatim>\<open>processing_results_queue\<close>. For a non-empty result
  with attendance updates it calls \<^verbatim>\<open>broadcast_attendance_update\<close> itself (line 200) and
  hands it the list of updates, on which \<^verbatim>\<open>attendance_data.get\<close> (line 35) raises as soon
  as a connection is registered: the client has received the match list and the summary
  notification, the event queue is as empty as before, and the iteration ends in the
  \<^verbatim>\<open>except\<close> clause.
\<close>

theorem response_consumer_never_enqueues_events:
  "processing_results_queue (snd (process_websocket_responses_body fmt send_json meanwhile w))
     = processing_results_queue w
   \<and> processing_results_queue (snd (process_websocket_responses n fmt send_json meanwhile w))
     = processing_results_queue w
   \<and> (let users = PList [PDict [(''name'', PStr ''Ann''), (''employee_id'', PStr ''E1'')]];
           updates = PList [PDict [(''attendance_id'', PStr ''x1''), (''objectId'', PStr ''x1'')]];
           answer = PDict [(''client_id'', PStr ''c1''), (''processed_users'', users),
                           (''attendance_updates'', updates),
                           (''last_recognized_users'', PList []),
                           (''no_face_count'', PInt 0)];
           w0 = (world_init :: (nat, nat) world)
                  \<lparr>active_connections := [(''c1'', 1)],
                   websocket_responses_queue := \<lparr>maxsize = 100, queue_items = [answer]\<rparr>\<rparr>
       in process_websocket_responses_body (\<lambda>x. ''?'') (\<lambda>websocket message. None)
            (\<lambda>registry. registry) w0
          = (Raises (AttributeError
                       (quoted ''list'' @ '' object has no attribute '' @ quoted ''get'')),
             w0\<lparr>websocket_responses_queue := \<lparr>maxsize = 100, queue_items = []\<rparr>,
                sent := [(1, PDict [(''multiple_users'', PBool True), (''users'', users)]),
                         (1, PDict [(''type'', PStr ''notification''),
                                    (''notification_type'', PStr ''success''),
                                    (''message'', PStr ''Face detected: Ann (ID: E1)'')])]\<rparr>)
          \<and> queue_items (processing_results_queue w0) = [])"
proof (intro conjI)
  show "processing_results_queue (snd (process_websocket_responses_body fmt send_json meanwhile w))
     = processing_results_queue w"
    using process_websocket_responses_body_frame(3)
      [of fmt send_json meanwhile w "fst (process_websocket_responses_body fmt send_json meanwhile w)"
          "snd (process_websocket_responses_body fmt send_json meanwhile w)"]
    by simp
  show "processing_results_queue (snd (process_websocket_responses n fmt send_json meanwhile w))
     = processing_results_queue w"
    using process_websocket_responses_run
      [of n fmt send_json meanwhile w "fst (process_websocket_responses n fmt send_json meanwhile w)"
          "snd (process_websocket_responses n fmt send_json meanwhile w)"]
    by simp
  show "let users = PList [PDict [(''name'', PStr ''Ann''), (''employee_id'', PStr ''E1'')]];
           updates = PList [PDict [(''attendance_id'', PStr ''x1''), (''objectId'', PStr ''x1'')]];
           answer = PDict [(''client_id'', PStr ''c1''), (''processed_users'', users),
                           (''attendance_updates'', updates),
                           (''last_recognized_users'', PList []),
                           (''no_face_count'', PInt 0)];
           w0 = (world_init :: (nat, nat) world)
                  \<lparr>active_connections := [(''c1'', 1)],
                   websocket_responses_queue := \<lparr>maxsize = 100, queue_items = [answer]\<rparr>\<rparr>
       in process_websocket_responses_body (\<lambda>x. ''?'') (\<lambda>websocket message. None)
            (\<lambda>registry. registry) w0
          = (Raises (AttributeError
                       (quoted ''list'' @ '' object has no attribute '' @ quoted ''get'')),
             w0\<lparr>websocket_responses_queue := \<lparr>maxsize = 100, queue_items = []\<rparr>,
                sent := [(1, PDict [(''multiple_users'', PBool True), (''users'', users)]),
                         (1, PDict [(''type'', PStr ''notification''),
                                    (''notification_type'', PStr ''success''),
                                    (''message'', PStr ''Face detected: Ann (ID: E1)'')])]\<rparr>)
          \<and> queue_items (processing_results_queue w0) = []"
    by (simp add: Let_def world_init_def process_websocket_responses_body_def
          respond_result_def respond_users_def summary_text_def
          broadcast_attendance_update_def send_notification_def
          send_message_to_client_def queue_get_def dict_has_def quoted_def
          processing_results_queue_init_def websocket_responses_queue_init_def Queue_def)
qed

section \<open>Properties of the pending-task ledger\<close>







































end
